theory Spec2Isabelle
  imports
    Complex_Main
    "HOL-Library.Multiset"
    "HOL-Library.Char_ord"
    "HOL-Library.List_Lexorder"
    "HOL-Library.Product_Lexorder"
begin

section \<open>JavaScript values used by the data service\<close>

text \<open>
  The data service (\<^verbatim>\<open>dataService.js\<close>, class \<^verbatim>\<open>DataService\<close>) works on values
  that come out of \<^verbatim>\<open>JSON.parse\<close> and out of the controllers, so its fields are
  dynamically typed.  The embedding keeps that: a field holds a \<open>jsval\<close>.

  Numbers are the IEEE doubles of the language with their three special values kept
  apart; finite numbers are idealised as reals, so arithmetic on them is exact
  (no rounding, no overflow to \<open>Infinity\<close>, no negative zero).  Field values are
  the primitive values of the language; a field that holds an array or an object is
  outside the model.  Strings are lists of code units below 256.
\<close>

datatype jsnum = NaN | PosInf | NegInf | Fin real

datatype jsval = JUndefined | JNull | JBool bool | JNum jsnum | JStr string

text \<open>The exceptions the service can meet, and the calls of
  \<^verbatim>\<open>errorHandler.handleError(error, source, showToUser)\<close> it makes.\<close>

datatype js_error =
    TypeError
  | NetworkError
  | HttpError nat
  | SyntaxError
  | UnknownChartType jsval

record error_report =
  err :: js_error
  source :: string
  showToUser :: bool

subsection \<open>Number arithmetic and comparison\<close>

fun isNaN :: "jsnum \<Rightarrow> bool" where
  "isNaN NaN = True"
| "isNaN _ = False"

fun num_neg :: "jsnum \<Rightarrow> jsnum" where
  "num_neg NaN = NaN"
| "num_neg PosInf = NegInf"
| "num_neg NegInf = PosInf"
| "num_neg (Fin x) = Fin (- x)"

fun num_add :: "jsnum \<Rightarrow> jsnum \<Rightarrow> jsnum" where
  "num_add NaN _ = NaN"
| "num_add _ NaN = NaN"
| "num_add PosInf NegInf = NaN"
| "num_add NegInf PosInf = NaN"
| "num_add PosInf _ = PosInf"
| "num_add _ PosInf = PosInf"
| "num_add NegInf _ = NegInf"
| "num_add _ NegInf = NegInf"
| "num_add (Fin x) (Fin y) = Fin (x + y)"

definition num_sub :: "jsnum \<Rightarrow> jsnum \<Rightarrow> jsnum" where
  "num_sub a b = num_add a (num_neg b)"

text \<open>Division of doubles: a finite non-zero number over zero is an infinity,
  zero over zero and infinity over infinity are \<open>NaN\<close>.\<close>

fun num_div :: "jsnum \<Rightarrow> jsnum \<Rightarrow> jsnum" where
  "num_div NaN _ = NaN"
| "num_div _ NaN = NaN"
| "num_div (Fin x) (Fin y) =
     (if y = 0 then (if x = 0 then NaN else if 0 < x then PosInf else NegInf)
      else Fin (x / y))"
| "num_div (Fin x) _ = Fin 0"
| "num_div PosInf (Fin y) = (if 0 \<le> y then PosInf else NegInf)"
| "num_div NegInf (Fin y) = (if 0 \<le> y then NegInf else PosInf)"
| "num_div _ _ = NaN"

text \<open>\<open>a < b\<close> on numbers; every comparison with \<open>NaN\<close> is false.\<close>

fun num_lt :: "jsnum \<Rightarrow> jsnum \<Rightarrow> bool" where
  "num_lt NaN _ = False"
| "num_lt _ NaN = False"
| "num_lt (Fin x) (Fin y) = (x < y)"
| "num_lt PosInf _ = False"
| "num_lt _ NegInf = False"
| "num_lt _ _ = True"

definition num_gt :: "jsnum \<Rightarrow> jsnum \<Rightarrow> bool" where
  "num_gt a b = num_lt b a"

definition num_le :: "jsnum \<Rightarrow> jsnum \<Rightarrow> bool" where
  "num_le a b = (\<not> isNaN a \<and> \<not> isNaN b \<and> \<not> num_lt b a)"

definition num_ge :: "jsnum \<Rightarrow> jsnum \<Rightarrow> bool" where
  "num_ge a b = num_le b a"

subsection \<open>Strings and conversions\<close>

text \<open>White space that \<^verbatim>\<open>parseInt\<close>, \<^verbatim>\<open>parseFloat\<close> and the conversion of a string
  to a number skip: TAB, LF, VT, FF, CR, SP and NBSP.\<close>

definition is_ws :: "char \<Rightarrow> bool" where
  "is_ws c = (of_char c \<in> {9, 10, 11, 12, 13, 32, 160 :: nat})"

definition trim :: "string \<Rightarrow> string" where
  "trim s = rev (dropWhile is_ws (rev (dropWhile is_ws s)))"

definition is_digit :: "char \<Rightarrow> bool" where
  "is_digit c = (48 \<le> (of_char c :: nat) \<and> (of_char c :: nat) \<le> 57)"

definition digit_val :: "char \<Rightarrow> nat" where
  "digit_val c = of_char c - 48"

definition digits_val :: "string \<Rightarrow> nat" where
  "digits_val ds = foldl (\<lambda>a c. 10 * a + digit_val c) 0 ds"

text \<open>\<^verbatim>\<open>parseInt(string, 10)\<close>: leading white space, an optional sign, then the longest
  run of decimal digits; \<open>NaN\<close> when that run is empty.\<close>

definition parseInt_str :: "string \<Rightarrow> jsnum" where
  "parseInt_str s =
     (let t = dropWhile is_ws s;
          neg = (case t of [] \<Rightarrow> False | c # _ \<Rightarrow> c = CHR ''-'');
          u = (case t of [] \<Rightarrow> [] | c # r \<Rightarrow> if c = CHR ''+'' \<or> c = CHR ''-'' then r else t);
          z = takeWhile is_digit u
      in if z = [] then NaN
         else Fin (if neg then - real (digits_val z) else real (digits_val z)))"

text \<open>The longest prefix that is a decimal literal (\<^verbatim>\<open>StrDecimalLiteral\<close> of the
  language definition), with the rest of the string.\<close>

definition parse_exponent :: "string \<Rightarrow> int \<times> string" where
  "parse_exponent s =
     (case s of
        [] \<Rightarrow> (0, s)
      | c # r \<Rightarrow>
          if c = CHR ''e'' \<or> c = CHR ''E'' then
            (let neg = (case r of [] \<Rightarrow> False | d # _ \<Rightarrow> d = CHR ''-'');
                 u = (case r of [] \<Rightarrow> [] | d # r' \<Rightarrow> if d = CHR ''+'' \<or> d = CHR ''-'' then r' else r);
                 z = takeWhile is_digit u
             in if z = [] then (0, s)
                else (if neg then - int (digits_val z) else int (digits_val z), dropWhile is_digit u))
          else (0, s))"

definition scale10 :: "real \<Rightarrow> int \<Rightarrow> real" where
  "scale10 m e = (if 0 \<le> e then m * 10 ^ nat e else m / 10 ^ nat (- e))"

definition parse_unsigned :: "string \<Rightarrow> (jsnum \<times> string) option" where
  "parse_unsigned s =
     (if take 8 s = ''Infinity'' then Some (PosInf, drop 8 s)
      else
        let i = takeWhile is_digit s;
            r1 = dropWhile is_digit s;
            dot = (case r1 of [] \<Rightarrow> False | c # _ \<Rightarrow> c = CHR ''.'');
            f = (if dot then takeWhile is_digit (tl r1) else []);
            r2 = (if dot then dropWhile is_digit (tl r1) else r1)
        in if i = [] \<and> f = [] then None
           else (case parse_exponent r2 of
                   (e, r3) \<Rightarrow> Some (Fin (scale10 (real (digits_val (i @ f)) / 10 ^ length f) e), r3)))"

definition parse_decimal :: "string \<Rightarrow> (jsnum \<times> string) option" where
  "parse_decimal s =
     (case s of
        [] \<Rightarrow> None
      | c # r \<Rightarrow>
          if c = CHR ''-'' then map_option (\<lambda>(v, rest). (num_neg v, rest)) (parse_unsigned r)
          else if c = CHR ''+'' then parse_unsigned r
          else parse_unsigned s)"

definition parseFloat_str :: "string \<Rightarrow> jsnum" where
  "parseFloat_str s =
     (case parse_decimal (dropWhile is_ws s) of None \<Rightarrow> NaN | Some (v, _) \<Rightarrow> v)"

text \<open>Hexadecimal, octal and binary integer literals, which the conversion of a string
  to a number accepts after \<^verbatim>\<open>0x\<close>, \<^verbatim>\<open>0o\<close>, \<^verbatim>\<open>0b\<close>.\<close>

definition radix_digit :: "char \<Rightarrow> nat" where
  "radix_digit c =
     (let n = (of_char c :: nat)
      in if 48 \<le> n \<and> n \<le> 57 then n - 48
         else if 97 \<le> n \<and> n \<le> 102 then n - 87
         else if 65 \<le> n \<and> n \<le> 70 then n - 55
         else 99)"

definition parse_radix :: "nat \<Rightarrow> string \<Rightarrow> jsnum" where
  "parse_radix b ds =
     (if ds \<noteq> [] \<and> list_all (\<lambda>c. radix_digit c < b) ds
      then Fin (real (foldl (\<lambda>a c. b * a + radix_digit c) 0 ds))
      else NaN)"

definition StringToNumber :: "string \<Rightarrow> jsnum" where
  "StringToNumber s =
     (let t = trim s
      in if t = [] then Fin 0
         else (case parse_decimal t of
                 Some (v, []) \<Rightarrow> v
               | _ \<Rightarrow>
                   if take 2 t = ''0x'' \<or> take 2 t = ''0X'' then parse_radix 16 (drop 2 t)
                   else if take 2 t = ''0o'' \<or> take 2 t = ''0O'' then parse_radix 8 (drop 2 t)
                   else if take 2 t = ''0b'' \<or> take 2 t = ''0B'' then parse_radix 2 (drop 2 t)
                   else NaN))"

fun ToNumber :: "jsval \<Rightarrow> jsnum" where
  "ToNumber JUndefined = NaN"
| "ToNumber JNull = Fin 0"
| "ToNumber (JBool b) = Fin (if b then 1 else 0)"
| "ToNumber (JNum n) = n"
| "ToNumber (JStr s) = StringToNumber s"

text \<open>Truthiness: \<^verbatim>\<open>undefined\<close>, \<^verbatim>\<open>null\<close>, \<^verbatim>\<open>false\<close>, \<open>0\<close>, \<open>NaN\<close> and the empty
  string are falsy.\<close>

fun truthy :: "jsval \<Rightarrow> bool" where
  "truthy JUndefined = False"
| "truthy JNull = False"
| "truthy (JBool b) = b"
| "truthy (JNum n) = (n \<noteq> NaN \<and> n \<noteq> Fin 0)"
| "truthy (JStr s) = (s \<noteq> [])"

definition js_or :: "jsval \<Rightarrow> jsval \<Rightarrow> jsval" where
  "js_or a b = (if truthy a then a else b)"

text \<open>The decimal text of a finite number (\<^verbatim>\<open>Number::toString\<close>) depends on the
  shortest digits that round back to the double, which the idealised reals do not have.
  It is a parameter of the model: every result below holds for every such function.\<close>

type_synonym number_format = "real \<Rightarrow> string"

fun ToString :: "number_format \<Rightarrow> jsval \<Rightarrow> string" where
  "ToString nf JUndefined = ''undefined''"
| "ToString nf JNull = ''null''"
| "ToString nf (JBool b) = (if b then ''true'' else ''false'')"
| "ToString nf (JNum NaN) = ''NaN''"
| "ToString nf (JNum PosInf) = ''Infinity''"
| "ToString nf (JNum NegInf) = ''-Infinity''"
| "ToString nf (JNum (Fin x)) = nf x"
| "ToString nf (JStr s) = s"

definition parseInt :: "number_format \<Rightarrow> jsval \<Rightarrow> jsnum" where
  "parseInt nf v = parseInt_str (ToString nf v)"

definition parseFloat :: "number_format \<Rightarrow> jsval \<Rightarrow> jsnum" where
  "parseFloat nf v = parseFloat_str (ToString nf v)"

text \<open>\<open>a === b\<close>: the same type and the same value, and \<open>NaN\<close> equal to nothing.\<close>

definition strict_eq :: "jsval \<Rightarrow> jsval \<Rightarrow> bool" where
  "strict_eq a b = (a = b \<and> a \<noteq> JNum NaN)"

text \<open>The relational comparison \<open>a < b\<close>: two strings are compared by code units,
  anything else as numbers; \<open>None\<close> is the undefined outcome when a side is \<open>NaN\<close>.\<close>

fun js_less :: "jsval \<Rightarrow> jsval \<Rightarrow> bool option" where
  "js_less (JStr s) (JStr t) = Some (s < t)"
| "js_less a b =
     (if isNaN (ToNumber a) \<or> isNaN (ToNumber b) then None
      else Some (num_lt (ToNumber a) (ToNumber b)))"

definition js_lt :: "jsval \<Rightarrow> jsval \<Rightarrow> bool" where
  "js_lt a b = (js_less a b = Some True)"

definition js_gt :: "jsval \<Rightarrow> jsval \<Rightarrow> bool" where
  "js_gt a b = (js_less b a = Some True)"

definition js_le :: "jsval \<Rightarrow> jsval \<Rightarrow> bool" where
  "js_le a b = (js_less b a = Some False)"

definition js_ge :: "jsval \<Rightarrow> jsval \<Rightarrow> bool" where
  "js_ge a b = (js_less a b = Some False)"

text \<open>\<open>a / b\<close> and \<open>a - b\<close> convert both sides to numbers; \<open>a + b\<close> concatenates when a
  side is a string.\<close>

definition js_div :: "jsval \<Rightarrow> jsval \<Rightarrow> jsval" where
  "js_div a b = JNum (num_div (ToNumber a) (ToNumber b))"

definition js_sub :: "jsval \<Rightarrow> jsval \<Rightarrow> jsnum" where
  "js_sub a b = num_sub (ToNumber a) (ToNumber b)"

fun is_string :: "jsval \<Rightarrow> bool" where
  "is_string (JStr _) = True"
| "is_string _ = False"

definition js_add :: "number_format \<Rightarrow> jsval \<Rightarrow> jsval \<Rightarrow> jsval" where
  "js_add nf a b =
     (if is_string a \<or> is_string b then JStr (ToString nf a @ ToString nf b)
      else JNum (num_add (ToNumber a) (ToNumber b)))"

text \<open>\<^verbatim>\<open>toLowerCase\<close> on code units below 256, and \<^verbatim>\<open>includes\<close> (a contiguous
  occurrence).\<close>

definition char_lower :: "char \<Rightarrow> char" where
  "char_lower c =
     (let n = (of_char c :: nat)
      in if (65 \<le> n \<and> n \<le> 90) \<or> (192 \<le> n \<and> n \<le> 222 \<and> n \<noteq> 215)
         then char_of (n + 32) else c)"

definition toLowerCase :: "string \<Rightarrow> string" where
  "toLowerCase s = map char_lower s"

definition str_includes :: "string \<Rightarrow> string \<Rightarrow> bool" where
  "str_includes s t = list_ex (\<lambda>i. take (length t) (drop i s) = t) [0..<Suc (length s)]"

text \<open>The decimal digits of an array index, for the template literals
  \<^verbatim>\<open>`player_${index}`\<close> and \<^verbatim>\<open>`Unknown Player ${index}`\<close>.\<close>

fun index_digits :: "nat \<Rightarrow> string" where
  "index_digits n =
     (if n < 10 then [''0123456789'' ! n]
      else index_digits (n div 10) @ [''0123456789'' ! (n mod 10)])"

section \<open>The data service\<close>

subsection \<open>Records, cache and collaborators\<close>

text \<open>A processed player, as \<^verbatim>\<open>_processData\<close> builds it.  A field that an object does
  not have reads as \<^verbatim>\<open>undefined\<close>.\<close>

record player =
  id' :: jsval
  name :: jsval
  alliance :: jsval
  server :: jsval
  score :: jsval
  chests :: jsval
  ratio :: jsval

text \<open>An element of the \<^verbatim>\<open>players\<close> array of the fetched document.  \<open>NullEntry\<close> is a
  \<^verbatim>\<open>null\<close> element, whose properties cannot be read; an element that is a number, a
  string, a boolean or an array has none of the six properties and is an \<open>Entry\<close> with
  every field \<^verbatim>\<open>undefined\<close>.\<close>

record raw_fields =
  raw_id :: jsval
  raw_name :: jsval
  raw_alliance :: jsval
  raw_server :: jsval
  raw_score :: jsval
  raw_chests :: jsval

datatype raw_entry = NullEntry | Entry raw_fields

text \<open>The \<^verbatim>\<open>players\<close> property of the document: absent or falsy, an array, or a truthy
  value that is no array (and so has no \<^verbatim>\<open>map\<close> method).  \<open>NullDoc\<close> is the document
  \<^verbatim>\<open>null\<close>.\<close>

datatype raw_players = NoPlayers | PlayerArray "raw_entry list" | NotAnArray

datatype raw_doc = NullDoc | Doc raw_players

text \<open>A \<^verbatim>\<open>Date\<close>: its time value in milliseconds, or an invalid date.\<close>

datatype date = InvalidDate | Time int

record cache =
  players :: "player list"
  alliances :: "jsval list"
  servers :: "jsval list"
  lastUpdated :: "date option"

text \<open>The service object together with what it writes in its collaborators: the keys
  \<^verbatim>\<open>isLoading\<close>, \<^verbatim>\<open>dataLoaded\<close> and \<^verbatim>\<open>dataSource\<close> of the state manager, the calls
  received by the error handler (oldest first), and the item \<^verbatim>\<open>tb_data_cache\<close> of the
  local storage.\<close>

record service =
  cache :: cache
  dataSourceUrl :: string
  isLoading :: bool
  dataLoaded :: bool
  dataSource :: jsval
  errorLog :: "error_report list"
  localStorage :: "cache option"

text \<open>What a call of \<^verbatim>\<open>fetch\<close> followed by \<^verbatim>\<open>response.json()\<close> can give.\<close>

datatype body = BadJson | Json raw_doc

datatype fetch_result = FetchRejected | Response bool nat body

text \<open>The surroundings of one call of \<^verbatim>\<open>loadData\<close>: the clock when the call starts and
  when the document has arrived, the network, and whether the local storage accepts a
  write.\<close>

record env =
  now :: int
  now_fetched :: int
  fetch :: "string \<Rightarrow> fetch_result"
  storageWritable :: bool

definition handleError :: "js_error \<Rightarrow> string \<Rightarrow> bool \<Rightarrow> service \<Rightarrow> service" where
  "handleError e src shown st =
     st\<lparr>errorLog := errorLog st @ [\<lparr>err = e, source = src, showToUser = shown\<rparr>]\<rparr>"

subsection \<open>Cache validity\<close>

definition cacheDuration :: real where
  "cacheDuration = 60 * 60 * 1000"

fun time_value :: "date \<Rightarrow> jsnum" where
  "time_value InvalidDate = NaN"
| "time_value (Time t) = Fin (real_of_int t)"

definition isDataLoaded :: "service \<Rightarrow> bool" where
  "isDataLoaded st = (length (players (cache st)) > 0)"

definition isCacheValid :: "int \<Rightarrow> service \<Rightarrow> bool" where
  "isCacheValid clock st =
     (case lastUpdated (cache st) of
        None \<Rightarrow> False
      | Some d \<Rightarrow>
          (let cacheAge = num_sub (Fin (real_of_int clock)) (time_value d)
           in num_lt cacheAge (Fin cacheDuration)))"

subsection \<open>Processing a fetched document\<close>

definition process_entry :: "nat \<Rightarrow> raw_entry \<Rightarrow> js_error + player" where
  "process_entry index e =
     (case e of
        NullEntry \<Rightarrow> Inl TypeError
      | Entry r \<Rightarrow> Inr
          \<lparr>id' = js_or (raw_id r) (JStr (''player_'' @ index_digits index)),
           name = js_or (raw_name r) (JStr (''Unknown Player '' @ index_digits index)),
           alliance = js_or (raw_alliance r) (JStr []),
           server = js_or (raw_server r) (JStr ''Unknown''),
           score = js_or (raw_score r) (JNum (Fin 0)),
           chests = js_or (raw_chests r) (JNum (Fin 0)),
           ratio = (if js_gt (raw_chests r) (JNum (Fin 0))
                    then js_div (raw_score r) (raw_chests r)
                    else JNum (Fin 0))\<rparr>)"

text \<open>\<^verbatim>\<open>players.map((player, index) => ...)\<close>; the first element that throws ends the
  whole map.\<close>

fun map_entries :: "nat \<Rightarrow> raw_entry list \<Rightarrow> js_error + player list" where
  "map_entries index [] = Inr []"
| "map_entries index (e # es) =
     (case process_entry index e of
        Inl x \<Rightarrow> Inl x
      | Inr p \<Rightarrow>
          (case map_entries (Suc index) es of
             Inl x \<Rightarrow> Inl x
           | Inr ps \<Rightarrow> Inr (p # ps)))"

text \<open>\<^verbatim>\<open>[...new Set(xs)]\<close>: the distinct elements in the order of their first occurrence.\<close>

definition new_Set :: "'a list \<Rightarrow> 'a list" where
  "new_Set xs = foldl (\<lambda>s x. if x \<in> set s then s else s @ [x]) [] xs"

text \<open>\<^verbatim>\<open>sort()\<close> without a comparator: a stable sort by the string of each element in
  code unit order, \<^verbatim>\<open>undefined\<close> last.\<close>

definition sort_default :: "number_format \<Rightarrow> jsval list \<Rightarrow> jsval list" where
  "sort_default nf xs =
     sort_key (ToString nf) (filter (\<lambda>v. v \<noteq> JUndefined) xs) @ filter (\<lambda>v. v = JUndefined) xs"

definition extract_alliances :: "number_format \<Rightarrow> player list \<Rightarrow> jsval list" where
  "extract_alliances nf ps =
     sort_default nf (new_Set (filter (\<lambda>a. \<not> strict_eq a (JStr [])) (map alliance ps)))"

definition extract_servers :: "number_format \<Rightarrow> player list \<Rightarrow> jsval list" where
  "extract_servers nf ps =
     sort_default nf (new_Set (filter (\<lambda>s. \<not> strict_eq s (JStr ''Unknown'')) (map server ps)))"

text \<open>\<^verbatim>\<open>_saveToCache\<close>: a failed write is only logged on the console.\<close>

definition saveToCache :: "bool \<Rightarrow> service \<Rightarrow> service" where
  "saveToCache writable st = (if writable then st\<lparr>localStorage := Some (cache st)\<rparr> else st)"

definition raw_player_list :: "raw_doc \<Rightarrow> js_error + player list" where
  "raw_player_list doc =
     (case doc of
        NullDoc \<Rightarrow> Inl TypeError
      | Doc NoPlayers \<Rightarrow> Inr []
      | Doc NotAnArray \<Rightarrow> Inl TypeError
      | Doc (PlayerArray es) \<Rightarrow> map_entries 0 es)"

definition processData ::
  "number_format \<Rightarrow> int \<Rightarrow> bool \<Rightarrow> raw_doc \<Rightarrow> service \<Rightarrow> bool \<times> service" where
  "processData nf clock writable doc st =
     (case raw_player_list doc of
        Inl e \<Rightarrow> (False, handleError e ''DataService._processData'' False st)
      | Inr processedPlayers \<Rightarrow>
          (True,
           saveToCache writable
             (st\<lparr>cache :=
                  \<lparr>players = processedPlayers,
                   alliances = extract_alliances nf processedPlayers,
                   servers = extract_servers nf processedPlayers,
                   lastUpdated = Some (Time clock)\<rparr>\<rparr>)))"

subsection \<open>Loading\<close>

definition loadData :: "number_format \<Rightarrow> env \<Rightarrow> bool \<Rightarrow> service \<Rightarrow> bool \<times> service" where
  "loadData nf ev forceRefresh st =
     (if \<not> forceRefresh \<and> isDataLoaded st \<and> isCacheValid (now ev) st then (True, st)
      else
        let st1 = st\<lparr>isLoading := True\<rparr>;
            url = ToString nf (js_or (dataSource st1) (JStr (dataSourceUrl st1)));
            failed = (\<lambda>e. (False, (handleError e ''DataService.loadData'' True st1)\<lparr>isLoading := False\<rparr>))
        in (case fetch ev url of
              FetchRejected \<Rightarrow> failed NetworkError
            | Response ok status b \<Rightarrow>
                if \<not> ok then failed (HttpError status)
                else (case b of
                        BadJson \<Rightarrow> failed SyntaxError
                      | Json doc \<Rightarrow>
                          (let st2 = snd (processData nf (now_fetched ev) (storageWritable ev) doc st1)
                           in (True, st2\<lparr>isLoading := False, dataLoaded := True\<rparr>)))))"

subsection \<open>Filtering\<close>

text \<open>The filter object that the controllers pass.  The argument of
  \<^verbatim>\<open>getFilteredPlayers\<close> is \<open>Some f\<close> for an object \<open>f\<close> (an absent argument is the
  default \<^verbatim>\<open>{}\<close>, every field \<^verbatim>\<open>undefined\<close>) and \<open>None\<close> for a falsy one such as
  \<^verbatim>\<open>null\<close>, which skips every filter.\<close>

record filter_spec =
  playerSearch :: jsval
  selectedServer :: jsval
  selectedAlliance :: jsval
  minScore :: jsval
  maxScore :: jsval
  minChests :: jsval
  maxChests :: jsval
  minRatio :: jsval
  maxRatio :: jsval

definition no_filters :: filter_spec where
  "no_filters =
     \<lparr>playerSearch = JUndefined, selectedServer = JUndefined, selectedAlliance = JUndefined,
      minScore = JUndefined, maxScore = JUndefined, minChests = JUndefined,
      maxChests = JUndefined, minRatio = JUndefined, maxRatio = JUndefined\<rparr>"

text \<open>\<^verbatim>\<open>Array.prototype.filter\<close> with a callback that can throw.\<close>

fun filter_throwing :: "('a \<Rightarrow> js_error + bool) \<Rightarrow> 'a list \<Rightarrow> js_error + 'a list" where
  "filter_throwing f [] = Inr []"
| "filter_throwing f (x # xs) =
     (case f x of
        Inl e \<Rightarrow> Inl e
      | Inr b \<Rightarrow>
          (case filter_throwing f xs of
             Inl e \<Rightarrow> Inl e
           | Inr ys \<Rightarrow> Inr (if b then x # ys else ys)))"

text \<open>\<^verbatim>\<open>player.name.toLowerCase().includes(searchTerm)\<close>: only a string has the
  method.\<close>

definition name_matches :: "string \<Rightarrow> player \<Rightarrow> js_error + bool" where
  "name_matches searchTerm p =
     (case name p of
        JStr n \<Rightarrow> Inr (str_includes (toLowerCase n) searchTerm)
      | _ \<Rightarrow> Inl TypeError)"

definition by_playerSearch :: "filter_spec \<Rightarrow> player list \<Rightarrow> js_error + player list" where
  "by_playerSearch f ps =
     (if truthy (playerSearch f) then
        (case playerSearch f of
           JStr s \<Rightarrow> filter_throwing (name_matches (toLowerCase s)) ps
         | _ \<Rightarrow> Inl TypeError)
      else Inr ps)"

definition by_selectedServer :: "filter_spec \<Rightarrow> player list \<Rightarrow> player list" where
  "by_selectedServer f ps =
     (if truthy (selectedServer f)
      then filter (\<lambda>p. strict_eq (server p) (selectedServer f)) ps else ps)"

definition by_selectedAlliance :: "filter_spec \<Rightarrow> player list \<Rightarrow> player list" where
  "by_selectedAlliance f ps =
     (if truthy (selectedAlliance f)
      then filter (\<lambda>p. strict_eq (alliance p) (selectedAlliance f)) ps else ps)"

definition by_minScore :: "number_format \<Rightarrow> filter_spec \<Rightarrow> player list \<Rightarrow> player list" where
  "by_minScore nf f ps =
     (if truthy (minScore f) then
        (let m = parseInt nf (minScore f)
         in if \<not> isNaN m then filter (\<lambda>p. js_ge (score p) (JNum m)) ps else ps)
      else ps)"

definition by_maxScore :: "number_format \<Rightarrow> filter_spec \<Rightarrow> player list \<Rightarrow> player list" where
  "by_maxScore nf f ps =
     (if truthy (maxScore f) then
        (let m = parseInt nf (maxScore f)
         in if \<not> isNaN m then filter (\<lambda>p. js_le (score p) (JNum m)) ps else ps)
      else ps)"

definition by_minChests :: "number_format \<Rightarrow> filter_spec \<Rightarrow> player list \<Rightarrow> player list" where
  "by_minChests nf f ps =
     (if truthy (minChests f) then
        (let m = parseInt nf (minChests f)
         in if \<not> isNaN m then filter (\<lambda>p. js_ge (chests p) (JNum m)) ps else ps)
      else ps)"

definition by_maxChests :: "number_format \<Rightarrow> filter_spec \<Rightarrow> player list \<Rightarrow> player list" where
  "by_maxChests nf f ps =
     (if truthy (maxChests f) then
        (let m = parseInt nf (maxChests f)
         in if \<not> isNaN m then filter (\<lambda>p. js_le (chests p) (JNum m)) ps else ps)
      else ps)"

definition by_minRatio :: "number_format \<Rightarrow> filter_spec \<Rightarrow> player list \<Rightarrow> player list" where
  "by_minRatio nf f ps =
     (if truthy (minRatio f) then
        (let m = parseFloat nf (minRatio f)
         in if \<not> isNaN m then filter (\<lambda>p. js_ge (ratio p) (JNum m)) ps else ps)
      else ps)"

definition by_maxRatio :: "number_format \<Rightarrow> filter_spec \<Rightarrow> player list \<Rightarrow> player list" where
  "by_maxRatio nf f ps =
     (if truthy (maxRatio f) then
        (let m = parseFloat nf (maxRatio f)
         in if \<not> isNaN m then filter (\<lambda>p. js_le (ratio p) (JNum m)) ps else ps)
      else ps)"

text \<open>The body of the \<^verbatim>\<open>try\<close> block for a truthy filter object: the nine steps in the
  order of the source.\<close>

definition filterPlayers :: "number_format \<Rightarrow> filter_spec \<Rightarrow> player list \<Rightarrow> js_error + player list" where
  "filterPlayers nf f ps =
     (case by_playerSearch f ps of
        Inl e \<Rightarrow> Inl e
      | Inr ps1 \<Rightarrow>
          Inr (by_maxRatio nf f (by_minRatio nf f
                (by_maxChests nf f (by_minChests nf f
                  (by_maxScore nf f (by_minScore nf f
                    (by_selectedAlliance f (by_selectedServer f ps1)))))))))"

definition getFilteredPlayers ::
  "number_format \<Rightarrow> filter_spec option \<Rightarrow> service \<Rightarrow> player list \<times> service" where
  "getFilteredPlayers nf filters st =
     (case filters of
        None \<Rightarrow> (players (cache st), st)
      | Some f \<Rightarrow>
          (case filterPlayers nf f (players (cache st)) of
             Inl e \<Rightarrow> ([], handleError e ''DataService.getFilteredPlayers'' False st)
           | Inr ps \<Rightarrow> (ps, st)))"

subsection \<open>Player details\<close>

text \<open>\<^verbatim>\<open>players.find(player => player.id === playerId) || null\<close>; \<open>None\<close> is
  \<^verbatim>\<open>null\<close>.  The service is returned with the result, as for the other operations.\<close>

definition getPlayerDetails :: "jsval \<Rightarrow> service \<Rightarrow> player option \<times> service" where
  "getPlayerDetails playerId st =
     (find (\<lambda>p. strict_eq (id' p) playerId) (players (cache st)), st)"

subsection \<open>Reading and resetting the cache\<close>

text \<open>The getters return copies of the cached lists; \<^verbatim>\<open>clearCache\<close> and
  \<^verbatim>\<open>setDataSource\<close> are the two remaining writers.\<close>

definition getPlayers :: "service \<Rightarrow> player list" where
  "getPlayers st = players (cache st)"

definition getAlliances :: "service \<Rightarrow> jsval list" where
  "getAlliances st = alliances (cache st)"

definition getServers :: "service \<Rightarrow> jsval list" where
  "getServers st = servers (cache st)"

definition clearCache :: "service \<Rightarrow> service" where
  "clearCache st =
     st\<lparr>cache := \<lparr>players = [], alliances = [], servers = [], lastUpdated = None\<rparr>,
        localStorage := None, dataLoaded := False\<rparr>"

definition setDataSource :: "string \<Rightarrow> service \<Rightarrow> service" where
  "setDataSource url st = st\<lparr>dataSourceUrl := url, dataSource := JStr url\<rparr>"

subsection \<open>Sorting with a comparator\<close>

text \<open>\<^verbatim>\<open>Array.prototype.sort(compare)\<close> is stable.  It is modelled as an insertion sort:
  an element goes behind a sorted neighbour exactly when the comparator called on the
  two is positive; a \<open>NaN\<close> from the comparator counts as zero.  Where the comparator is
  a consistent ordering every stable sort gives this result; where it is not, the
  language leaves the order to the implementation and this one is fixed.\<close>

fun insert_by :: "('a \<Rightarrow> 'a \<Rightarrow> jsnum) \<Rightarrow> 'a \<Rightarrow> 'a list \<Rightarrow> 'a list" where
  "insert_by cmp x [] = [x]"
| "insert_by cmp x (y # ys) =
     (if num_gt (cmp x y) (Fin 0) then y # insert_by cmp x ys else x # y # ys)"

fun sort_by :: "('a \<Rightarrow> 'a \<Rightarrow> jsnum) \<Rightarrow> 'a list \<Rightarrow> 'a list" where
  "sort_by cmp [] = []"
| "sort_by cmp (x # xs) = insert_by cmp x (sort_by cmp xs)"

subsection \<open>Statistics\<close>

text \<open>\<^verbatim>\<open>ps.reduce((sum, player) => sum + player.field, 0)\<close> and the guarded mean
  \<^verbatim>\<open>ps.length > 0 ? total / ps.length : 0\<close>.\<close>

definition total_of :: "number_format \<Rightarrow> (player \<Rightarrow> jsval) \<Rightarrow> player list \<Rightarrow> jsval" where
  "total_of nf field ps = foldl (\<lambda>sum p. js_add nf sum (field p)) (JNum (Fin 0)) ps"

definition average_of :: "number_format \<Rightarrow> (player \<Rightarrow> jsval) \<Rightarrow> player list \<Rightarrow> jsval" where
  "average_of nf field ps =
     (if length ps > 0 then js_div (total_of nf field ps) (JNum (Fin (real (length ps))))
      else JNum (Fin 0))"

record group_stats =
  playerCount :: nat
  groupTotalScore :: jsval
  groupTotalChests :: jsval
  groupAverageScore :: jsval
  groupAverageChests :: jsval
  groupAverageRatio :: jsval

definition group_of :: "number_format \<Rightarrow> player list \<Rightarrow> group_stats" where
  "group_of nf ps =
     \<lparr>playerCount = length ps,
      groupTotalScore = total_of nf score ps,
      groupTotalChests = total_of nf chests ps,
      groupAverageScore = average_of nf score ps,
      groupAverageChests = average_of nf chests ps,
      groupAverageRatio = average_of nf ratio ps\<rparr>"

record statistics =
  totalPlayers :: nat
  totalChests :: jsval
  totalScore :: jsval
  averageChests :: jsval
  averageScore :: jsval
  averageRatio :: jsval
  topPlayersByScore :: "player list"
  topPlayersByChests :: "player list"
  topPlayersByRatio :: "player list"
  allianceStats :: "string \<rightharpoonup> group_stats"
  serverStats :: "string \<rightharpoonup> group_stats"
  statsLastUpdated :: "date option"

text \<open>No step of \<^verbatim>\<open>getStatistics\<close> throws on these values, so its \<^verbatim>\<open>catch\<close> branch is
  never taken.  The two objects of group statistics are keyed by the string of the
  alliance or server.\<close>

definition getStatistics :: "number_format \<Rightarrow> service \<Rightarrow> statistics" where
  "getStatistics nf st =
     (let ps = players (cache st)
      in \<lparr>totalPlayers = length ps,
          totalChests = total_of nf chests ps,
          totalScore = total_of nf score ps,
          averageChests = average_of nf chests ps,
          averageScore = average_of nf score ps,
          averageRatio = average_of nf ratio ps,
          topPlayersByScore = take 10 (sort_by (\<lambda>a b. js_sub (score b) (score a)) ps),
          topPlayersByChests = take 10 (sort_by (\<lambda>a b. js_sub (chests b) (chests a)) ps),
          topPlayersByRatio = take 10 (sort_by (\<lambda>a b. js_sub (ratio b) (ratio a)) ps),
          allianceStats =
            foldl (\<lambda>m a. m(ToString nf a \<mapsto> group_of nf (filter (\<lambda>p. strict_eq (alliance p) a) ps)))
              Map.empty (alliances (cache st)),
          serverStats =
            foldl (\<lambda>m s. m(ToString nf s \<mapsto> group_of nf (filter (\<lambda>p. strict_eq (server p) s) ps)))
              Map.empty (servers (cache st)),
          statsLastUpdated = lastUpdated (cache st)\<rparr>)"

subsection \<open>Chart data\<close>

record chart_series =
  series_name :: string
  data :: "jsval list"

record chart_data =
  series :: "chart_series list"
  categories :: "jsval list"

definition empty_chart :: chart_data where
  "empty_chart = \<lparr>series = [], categories = []\<rparr>"

record range =
  range_min :: jsnum
  range_max :: jsnum
  label :: string

definition score_ranges :: "range list" where
  "score_ranges =
     [\<lparr>range_min = Fin 0, range_max = Fin 1000, label = ''0-1K''\<rparr>,
      \<lparr>range_min = Fin 1000, range_max = Fin 5000, label = ''1K-5K''\<rparr>,
      \<lparr>range_min = Fin 5000, range_max = Fin 10000, label = ''5K-10K''\<rparr>,
      \<lparr>range_min = Fin 10000, range_max = Fin 50000, label = ''10K-50K''\<rparr>,
      \<lparr>range_min = Fin 50000, range_max = Fin 100000, label = ''50K-100K''\<rparr>,
      \<lparr>range_min = Fin 100000, range_max = Fin 500000, label = ''100K-500K''\<rparr>,
      \<lparr>range_min = Fin 500000, range_max = Fin 1000000, label = ''500K-1M''\<rparr>,
      \<lparr>range_min = Fin 1000000, range_max = PosInf, label = ''1M+''\<rparr>]"

definition chest_ranges :: "range list" where
  "chest_ranges =
     [\<lparr>range_min = Fin 0, range_max = Fin 10, label = ''0-10''\<rparr>,
      \<lparr>range_min = Fin 10, range_max = Fin 50, label = ''10-50''\<rparr>,
      \<lparr>range_min = Fin 50, range_max = Fin 100, label = ''50-100''\<rparr>,
      \<lparr>range_min = Fin 100, range_max = Fin 500, label = ''100-500''\<rparr>,
      \<lparr>range_min = Fin 500, range_max = Fin 1000, label = ''500-1K''\<rparr>,
      \<lparr>range_min = Fin 1000, range_max = Fin 5000, label = ''1K-5K''\<rparr>,
      \<lparr>range_min = Fin 5000, range_max = Fin 10000, label = ''5K-10K''\<rparr>,
      \<lparr>range_min = Fin 10000, range_max = PosInf, label = ''10K+''\<rparr>]"

definition ratio_ranges :: "range list" where
  "ratio_ranges =
     [\<lparr>range_min = Fin 0, range_max = Fin 10, label = ''0-10''\<rparr>,
      \<lparr>range_min = Fin 10, range_max = Fin 50, label = ''10-50''\<rparr>,
      \<lparr>range_min = Fin 50, range_max = Fin 100, label = ''50-100''\<rparr>,
      \<lparr>range_min = Fin 100, range_max = Fin 200, label = ''100-200''\<rparr>,
      \<lparr>range_min = Fin 200, range_max = Fin 500, label = ''200-500''\<rparr>,
      \<lparr>range_min = Fin 500, range_max = Fin 1000, label = ''500-1K''\<rparr>,
      \<lparr>range_min = Fin 1000, range_max = PosInf, label = ''1K+''\<rparr>]"

text \<open>\<^verbatim>\<open>value >= range.min && value < range.max\<close>, and the count of the players of a
  range, \<^verbatim>\<open>players.filter(...).length\<close>.\<close>

definition in_range :: "jsval \<Rightarrow> range \<Rightarrow> bool" where
  "in_range v r = (js_ge v (JNum (range_min r)) \<and> js_lt v (JNum (range_max r)))"

definition range_counts :: "range list \<Rightarrow> (player \<Rightarrow> jsval) \<Rightarrow> player list \<Rightarrow> nat list" where
  "range_counts ranges field ps =
     map (\<lambda>r. length (filter (\<lambda>p. in_range (field p) r) ps)) ranges"

definition distribution_chart :: "range list \<Rightarrow> nat list \<Rightarrow> chart_data" where
  "distribution_chart ranges counts =
     \<lparr>series = [\<lparr>series_name = ''Players'', data = map (\<lambda>n. JNum (Fin (real n))) counts\<rparr>],
      categories = map (\<lambda>r. JStr (label r)) ranges\<rparr>"

definition createScoreDistributionData :: "player list \<Rightarrow> chart_data" where
  "createScoreDistributionData ps =
     distribution_chart score_ranges (range_counts score_ranges score ps)"

definition createChestDistributionData :: "player list \<Rightarrow> chart_data" where
  "createChestDistributionData ps =
     distribution_chart chest_ranges (range_counts chest_ranges chests ps)"

definition createRatioDistributionData :: "player list \<Rightarrow> chart_data" where
  "createRatioDistributionData ps =
     distribution_chart ratio_ranges (range_counts ratio_ranges ratio ps)"

text \<open>The comparison charts: one row per alliance or server of the given players.\<close>

definition by_count :: "jsval \<times> group_stats \<Rightarrow> jsval \<times> group_stats \<Rightarrow> jsnum" where
  "by_count a b = num_sub (Fin (real (playerCount (snd b)))) (Fin (real (playerCount (snd a))))"

definition createAllianceComparisonData :: "number_format \<Rightarrow> player list \<Rightarrow> chart_data" where
  "createAllianceComparisonData nf ps =
     (let alliances = new_Set (filter (\<lambda>a. \<not> strict_eq a (JStr [])) (map alliance ps));
          topAlliances =
            take 10 (sort_by by_count
              (map (\<lambda>a. (a, group_of nf (filter (\<lambda>p. strict_eq (alliance p) a) ps))) alliances))
      in \<lparr>series =
            [\<lparr>series_name = ''Total Score'', data = map (\<lambda>a. groupTotalScore (snd a)) topAlliances\<rparr>,
             \<lparr>series_name = ''Total Chests'', data = map (\<lambda>a. groupTotalChests (snd a)) topAlliances\<rparr>,
             \<lparr>series_name = ''Average Score'', data = map (\<lambda>a. groupAverageScore (snd a)) topAlliances\<rparr>,
             \<lparr>series_name = ''Average Chests'', data = map (\<lambda>a. groupAverageChests (snd a)) topAlliances\<rparr>],
          categories = map fst topAlliances\<rparr>)"

definition createServerComparisonData :: "number_format \<Rightarrow> player list \<Rightarrow> chart_data" where
  "createServerComparisonData nf ps =
     (let servers = new_Set (filter (\<lambda>s. \<not> strict_eq s (JStr ''Unknown'')) (map server ps));
          serverStats =
            map (\<lambda>s. (s, group_of nf (filter (\<lambda>p. strict_eq (server p) s) ps))) servers
      in \<lparr>series =
            [\<lparr>series_name = ''Player Count'',
              data = map (\<lambda>s. JNum (Fin (real (playerCount (snd s))))) serverStats\<rparr>,
             \<lparr>series_name = ''Average Score'', data = map (\<lambda>s. groupAverageScore (snd s)) serverStats\<rparr>,
             \<lparr>series_name = ''Average Chests'', data = map (\<lambda>s. groupAverageChests (snd s)) serverStats\<rparr>],
          categories = map fst serverStats\<rparr>)"

text \<open>The top players chart.  \<open>metric_field\<close> is \<^verbatim>\<open>player[metric]\<close> and
  \<open>metric_title\<close> is \<^verbatim>\<open>metric.charAt(0).toUpperCase() + metric.slice(1)\<close> for the
  three metrics that pass the validation.\<close>

definition valid_metric :: "jsval \<Rightarrow> jsval" where
  "valid_metric metric =
     (if \<not> (metric \<in> set [JStr ''score'', JStr ''chests'', JStr ''ratio'']) then JStr ''score''
      else metric)"

definition metric_field :: "jsval \<Rightarrow> player \<Rightarrow> jsval" where
  "metric_field metric p =
     (if metric = JStr ''score'' then score p
      else if metric = JStr ''chests'' then chests p
      else if metric = JStr ''ratio'' then ratio p
      else JUndefined)"

definition metric_title :: "jsval \<Rightarrow> string" where
  "metric_title metric =
     (if metric = JStr ''score'' then ''Score''
      else if metric = JStr ''chests'' then ''Chests''
      else if metric = JStr ''ratio'' then ''Ratio''
      else [])"

definition createTopPlayersData :: "player list \<Rightarrow> jsval \<Rightarrow> chart_data" where
  "createTopPlayersData ps metric0 =
     (let metric = valid_metric metric0;
          topPlayers =
            take 10 (sort_by (\<lambda>a b. js_sub (metric_field metric b) (metric_field metric a)) ps)
      in \<lparr>series = [\<lparr>series_name = metric_title metric, data = map (metric_field metric) topPlayers\<rparr>],
          categories = map name topPlayers\<rparr>)"

text \<open>The second argument of \<^verbatim>\<open>getChartData\<close>: \<open>NullOptions\<close> is \<^verbatim>\<open>null\<close>, whose
  properties cannot be read; otherwise its \<^verbatim>\<open>filters\<close> (as for
  \<^verbatim>\<open>getFilteredPlayers\<close>) and its \<^verbatim>\<open>metric\<close>.  An absent argument is
  \<open>Options (Some no_filters) JUndefined\<close>.\<close>

datatype chart_options = NullOptions | Options "filter_spec option" jsval

definition getChartData ::
  "number_format \<Rightarrow> jsval \<Rightarrow> chart_options \<Rightarrow> service \<Rightarrow> chart_data \<times> service" where
  "getChartData nf chartType options st =
     (case options of
        NullOptions \<Rightarrow> (empty_chart, handleError TypeError ''DataService.getChartData'' False st)
      | Options filters metric \<Rightarrow>
          (let (ps, st1) = getFilteredPlayers nf filters st
           in if chartType = JStr ''score_distribution'' then (createScoreDistributionData ps, st1)
              else if chartType = JStr ''chest_distribution'' then (createChestDistributionData ps, st1)
              else if chartType = JStr ''alliance_comparison'' then (createAllianceComparisonData nf ps, st1)
              else if chartType = JStr ''server_comparison'' then (createServerComparisonData nf ps, st1)
              else if chartType = JStr ''ratio_distribution'' then (createRatioDistributionData ps, st1)
              else if chartType = JStr ''top_players''
                then (createTopPlayersData ps (js_or metric (JStr ''score'')), st1)
              else (empty_chart,
                    handleError (UnknownChartType chartType) ''DataService.getChartData'' False st1)))"

section \<open>Notions used in the statements\<close>

text \<open>The service as its constructor leaves it, a raw entry without any field, and a
  number format for the concrete examples: the decimal digits of the integer part,
  which is the text of every integer below \<open>10\<^sup>2\<^sup>1\<close>.\<close>

definition new_DataService :: service where
  "new_DataService =
     \<lparr>cache = \<lparr>players = [], alliances = [], servers = [], lastUpdated = None\<rparr>,
      dataSourceUrl = ''data/chest_data.json'',
      isLoading = False, dataLoaded = False, dataSource = JUndefined,
      errorLog = [], localStorage = None\<rparr>"

definition no_fields :: raw_fields where
  "no_fields =
     \<lparr>raw_id = JUndefined, raw_name = JUndefined, raw_alliance = JUndefined,
      raw_server = JUndefined, raw_score = JUndefined, raw_chests = JUndefined\<rparr>"

definition integer_format :: number_format where
  "integer_format x = (if x < 0 then ''-'' else []) @ index_digits (nat \<lfloor>\<bar>x\<bar>\<rfloor>)"

text \<open>A reload fails in transport when \<^verbatim>\<open>fetch\<close> rejects, when the response is not
  ok, or when its body is no JSON.  \<open>requested_url\<close> is the address the reload asks
  for.\<close>

fun transport_failure :: "fetch_result \<Rightarrow> bool" where
  "transport_failure FetchRejected = True"
| "transport_failure (Response ok status BadJson) = True"
| "transport_failure (Response ok status (Json doc)) = (\<not> ok)"

definition requested_url :: "number_format \<Rightarrow> service \<Rightarrow> string" where
  "requested_url nf st = ToString nf (js_or (dataSource st) (JStr (dataSourceUrl st)))"

definition reload_needed :: "env \<Rightarrow> bool \<Rightarrow> service \<Rightarrow> bool" where
  "reload_needed ev forceRefresh st =
     (if forceRefresh then True
      else if isDataLoaded st then \<not> isCacheValid (now ev) st else True)"

text \<open>Concrete inputs for the examples: a network that rejects every request.\<close>

definition offline :: env where
  "offline = \<lparr>now = 0, now_fetched = 1, fetch = (\<lambda>url. FetchRejected), storageWritable = True\<rparr>"

text \<open>A small cache: two players share the id \<open>b\<close>.\<close>

definition two_players :: service where
  "two_players = new_DataService\<lparr>cache :=
     \<lparr>players =
        [\<lparr>id' = JStr ''a'', name = JStr ''Ann'', alliance = JStr ''Red'', server = JStr ''S1'',
          score = JNum (Fin 100), chests = JNum (Fin 10), ratio = JNum (Fin 10)\<rparr>,
         \<lparr>id' = JStr ''b'', name = JStr ''Bob'', alliance = JStr ''Red'', server = JStr ''S2'',
          score = JNum (Fin 300), chests = JNum (Fin 0), ratio = JNum (Fin 0)\<rparr>,
         \<lparr>id' = JStr ''b'', name = JStr ''Bea'', alliance = JStr [], server = JStr ''S2'',
          score = JNum (Fin 50), chests = JNum (Fin 5), ratio = JNum (Fin 10)\<rparr>],
      alliances = [JStr ''Red''], servers = [JStr ''S1'', JStr ''S2''],
      lastUpdated = Some (Time 0)\<rparr>\<rparr>"

text \<open>The document \<^verbatim>\<open>{"players": [{"chests": 5}]}\<close>: one entry with chests and no
  score.\<close>

definition chests_only_doc :: raw_doc where
  "chests_only_doc = Doc (PlayerArray [Entry (no_fields\<lparr>raw_chests := JNum (Fin 5)\<rparr>)])"

text \<open>Whether applying the filters of the chart options raises an error, which
  \<^verbatim>\<open>getFilteredPlayers\<close> then reports itself.\<close>

definition filters_raise :: "number_format \<Rightarrow> chart_options \<Rightarrow> service \<Rightarrow> bool" where
  "filters_raise nf options st =
     (case options of
        NullOptions \<Rightarrow> False
      | Options None metric \<Rightarrow> False
      | Options (Some f) metric \<Rightarrow> isl (filterPlayers nf f (players (cache st))))"

definition known_chart_types :: "jsval list" where
  "known_chart_types =
     [JStr ''score_distribution'', JStr ''chest_distribution'', JStr ''ratio_distribution'',
      JStr ''alliance_comparison'', JStr ''server_comparison'', JStr ''top_players'']"

text \<open>A cache with one player whose name is the number 42, and chart options that
  search the names for \<open>a\<close>.\<close>

definition numeric_name :: service where
  "numeric_name = new_DataService\<lparr>cache :=
     \<lparr>players =
        [\<lparr>id' = JStr ''p'', name = JNum (Fin 42), alliance = JStr [], server = JStr ''Unknown'',
          score = JNum (Fin 1), chests = JNum (Fin 1), ratio = JNum (Fin 1)\<rparr>],
      alliances = [], servers = [], lastUpdated = Some (Time 0)\<rparr>\<rparr>"

definition search_a :: chart_options where
  "search_a = Options (Some (no_filters\<lparr>playerSearch := JStr ''a''\<rparr>)) JUndefined"

text \<open>The test by which a step of the filter is passed over: the field is falsy or
  its parse is \<open>NaN\<close>.\<close>

definition no_bound :: "(jsval \<Rightarrow> jsnum) \<Rightarrow> jsval \<Rightarrow> bool" where
  "no_bound parse v = (if truthy v then isNaN (parse v) else True)"

text \<open>A text without a leading number.  \<open>unsigned_text\<close> is what follows the leading
  white space and one optional sign.  The text has no leading integer when this rest
  does not begin with a decimal digit; it has no leading decimal number when the rest
  begins neither with a digit, nor with a point and a digit, nor with \<open>Infinity\<close>.
  A bound is without a number when it is falsy (absent, \<open>0\<close>, the empty string,
  \<^verbatim>\<open>null\<close>, \<^verbatim>\<open>false\<close>, \<open>NaN\<close>) or its text has no leading number.\<close>

definition unsigned_text :: "string \<Rightarrow> string" where
  "unsigned_text s =
     (case dropWhile is_ws s of
        [] \<Rightarrow> []
      | c # r \<Rightarrow> if c = CHR ''+'' \<or> c = CHR ''-'' then r else c # r)"

definition no_leading_integer :: "string \<Rightarrow> bool" where
  "no_leading_integer s = (case unsigned_text s of [] \<Rightarrow> True | c # r \<Rightarrow> \<not> is_digit c)"

definition no_leading_decimal :: "string \<Rightarrow> bool" where
  "no_leading_decimal s =
     (case unsigned_text s of
        [] \<Rightarrow> True
      | c # r \<Rightarrow>
          if is_digit c then False
          else if c = CHR ''.'' then (case r of [] \<Rightarrow> True | d # r' \<Rightarrow> \<not> is_digit d)
          else take 8 (c # r) \<noteq> ''Infinity'')"

definition without_integer :: "number_format \<Rightarrow> jsval \<Rightarrow> bool" where
  "without_integer nf v = (if truthy v then no_leading_integer (ToString nf v) else True)"

definition without_decimal :: "number_format \<Rightarrow> jsval \<Rightarrow> bool" where
  "without_decimal nf v = (if truthy v then no_leading_decimal (ToString nf v) else True)"

text \<open>A filter object whose six numeric bounds are each without effect.\<close>

definition idle_bounds :: filter_spec where
  "idle_bounds =
     \<lparr>playerSearch = JUndefined, selectedServer = JUndefined, selectedAlliance = JUndefined,
      minScore = JStr ''abc'', maxScore = JNum (Fin 0), minChests = JStr [],
      maxChests = JNull, minRatio = JStr ''x1'', maxRatio = JBool False\<rparr>"

text \<open>The same with a search of the names for \<open>B\<close>, and with a maximal score of 200
  on top.\<close>

definition search_B_idle_bounds :: filter_spec where
  "search_B_idle_bounds = idle_bounds\<lparr>playerSearch := JStr ''B''\<rparr>"

definition search_B_max_200 :: filter_spec where
  "search_B_max_200 = search_B_idle_bounds\<lparr>maxScore := JStr ''200''\<rparr>"

text \<open>A filter object that searches the names for \<open>B\<close> and asks for a score of at
  least 100.\<close>

definition search_B_min_100 :: filter_spec where
  "search_B_min_100 = no_filters\<lparr>playerSearch := JStr ''B'', minScore := JStr ''100''\<rparr>"

text \<open>A value that is a finite number and not negative.\<close>

fun nonneg_finite :: "jsval \<Rightarrow> bool" where
  "nonneg_finite (JNum (Fin x)) = (0 \<le> x)"
| "nonneg_finite _ = False"

text \<open>The scores 500, 1500 and 1500000 of the example, on players that differ in
  nothing else.\<close>

definition scored :: "real \<Rightarrow> player" where
  "scored x =
     \<lparr>id' = JStr ''p'', name = JStr ''P'', alliance = JStr [], server = JStr ''Unknown'',
      score = JNum (Fin x), chests = JNum (Fin x), ratio = JNum (Fin x)\<rparr>"

definition three_scores :: "player list" where
  "three_scores = [scored 500, scored 1500, scored 1500000]"

text \<open>A document with players of the alliances \<open>Red\<close>, none, \<open>Blue\<close>, \<open>Red\<close> on the
  servers \<open>S2\<close>, unknown, \<open>S1\<close>, \<open>S2\<close>.\<close>

definition four_entries :: raw_doc where
  "four_entries = Doc (PlayerArray
     [Entry (no_fields\<lparr>raw_alliance := JStr ''Red'', raw_server := JStr ''S2''\<rparr>),
      Entry no_fields,
      Entry (no_fields\<lparr>raw_alliance := JStr ''Blue'', raw_server := JStr ''S1''\<rparr>),
      Entry (no_fields\<lparr>raw_alliance := JStr ''Red'', raw_server := JStr ''S2''\<rparr>)])"

text \<open>The derived lists of a cache are in order when each is sorted by the order of
  \<^verbatim>\<open>sort()\<close> (the strings of the elements, by code units), has no duplicates, and is
  free of its sentinel.\<close>

definition derived_lists_ok :: "number_format \<Rightarrow> cache \<Rightarrow> bool" where
  "derived_lists_ok nf c =
     (sorted (map (ToString nf) (alliances c)) \<and> distinct (alliances c)
      \<and> JStr [] \<notin> set (alliances c)
      \<and> sorted (map (ToString nf) (servers c)) \<and> distinct (servers c)
      \<and> JStr ''Unknown'' \<notin> set (servers c))"

text \<open>A list is in descending order of a field when the number of each element is
  \<open>>=\<close> the number of every later one.  A list \<open>ys\<close> is the stable descending sort of
  \<open>xs\<close> when it is a permutation of \<open>xs\<close> in descending order in which the elements of
  equal number keep the order they have in \<open>xs\<close>.\<close>

definition descending :: "(player \<Rightarrow> jsval) \<Rightarrow> player list \<Rightarrow> bool" where
  "descending field ys = sorted_wrt (\<lambda>a b. num_ge (ToNumber (field a)) (ToNumber (field b))) ys"

definition stable_descending :: "(player \<Rightarrow> jsval) \<Rightarrow> player list \<Rightarrow> player list \<Rightarrow> bool" where
  "stable_descending field xs ys =
     (mset ys = mset xs \<and> descending field ys
      \<and> list_all (\<lambda>p. filter (\<lambda>q. ToNumber (field q) = ToNumber (field p)) ys =
                      filter (\<lambda>q. ToNumber (field q) = ToNumber (field p)) xs) xs)"

definition numeric :: "(player \<Rightarrow> jsval) \<Rightarrow> player list \<Rightarrow> bool" where
  "numeric field xs = list_all (\<lambda>p. \<not> isNaN (ToNumber (field p))) xs"

text \<open>\<open>tops\<close> are the top ten of \<open>xs\<close> by a field: the first ten elements of the
  stable descending sort of \<open>xs\<close>, which is the only list of that kind.\<close>

definition is_top10 :: "(player \<Rightarrow> jsval) \<Rightarrow> player list \<Rightarrow> player list \<Rightarrow> bool" where
  "is_top10 field xs tops =
     (\<exists>ys. stable_descending field xs ys
           \<and> (\<forall>zs. stable_descending field xs zs \<longrightarrow> zs = ys)
           \<and> tops = take 10 ys)"

text \<open>The document
  \<^verbatim>\<open>{"players": [{"score": 5, "chests": 5}, {"chests": 5}, {"score": 10, "chests": 5}]}\<close>
  and the service after processing it.\<close>

definition score_missing_doc :: raw_doc where
  "score_missing_doc = Doc (PlayerArray
     [Entry (no_fields\<lparr>raw_score := JNum (Fin 5), raw_chests := JNum (Fin 5)\<rparr>),
      Entry (no_fields\<lparr>raw_chests := JNum (Fin 5)\<rparr>),
      Entry (no_fields\<lparr>raw_score := JNum (Fin 10), raw_chests := JNum (Fin 5)\<rparr>)])"

definition score_missing_loaded :: service where
  "score_missing_loaded = snd (processData integer_format 0 True score_missing_doc new_DataService)"

text \<open>A key that is smaller for the larger number, to compare the sort order with the
  library's sort by key.\<close>

fun descending_key :: "jsnum \<Rightarrow> nat \<times> real" where
  "descending_key PosInf = (0, 0)"
| "descending_key (Fin x) = (1, - x)"
| "descending_key NegInf = (2, 0)"
| "descending_key NaN = (3, 0)"

section \<open>Verified properties\<close>

subsection \<open>Staleness of the cache\<close>

text \<open>
  Claim C5.  A cache whose \<^verbatim>\<open>lastUpdated\<close> is a date with time value \<open>t\<close> is valid at
  the time \<open>clock\<close> exactly when \<open>clock - t\<close> is strictly below one hour, that is
  3600000 milliseconds; at an age of exactly one hour it is stale; a cache without
  \<^verbatim>\<open>lastUpdated\<close> is stale at every time, and so is one whose date is invalid.
\<close>

theorem cache_valid_iff_younger_than_an_hour:
  "isCacheValid clock st =
     (case lastUpdated (cache st) of
        None \<Rightarrow> False
      | Some InvalidDate \<Rightarrow> False
      | Some (Time t) \<Rightarrow> clock - t < 3600000)
   \<and> \<not> isCacheValid clock
         (st\<lparr>cache := (cache st)\<lparr>lastUpdated := Some (Time (clock - 3600000))\<rparr>\<rparr>)
   \<and> isCacheValid clock
         (st\<lparr>cache := (cache st)\<lparr>lastUpdated := Some (Time (clock - 3599999))\<rparr>\<rparr>)
   \<and> \<not> isCacheValid clock (st\<lparr>cache := (cache st)\<lparr>lastUpdated := None\<rparr>\<rparr>)"
proof -
  have age: "real_of_int clock - real_of_int t < 3600000 \<longleftrightarrow> clock - t < 3600000" for t
  proof -
    have "real_of_int clock - real_of_int t = real_of_int (clock - t)" by simp
    moreover have "real_of_int (clock - t) < real_of_int 3600000 \<longleftrightarrow> clock - t < 3600000"
      by (rule of_int_less_iff)
    ultimately show ?thesis by simp
  qed
  have main: "isCacheValid clock s =
     (case lastUpdated (cache s) of
        None \<Rightarrow> False
      | Some InvalidDate \<Rightarrow> False
      | Some (Time t) \<Rightarrow> clock - t < 3600000)" for s
    by (simp add: isCacheValid_def num_sub_def cacheDuration_def age
             split: option.split date.split)
  show ?thesis
    by (simp add: main)
qed

subsection \<open>A reload that fails in transport\<close>

text \<open>
  Claim C2.  When a reload is made (the refresh is forced, or no data is loaded, or the
  cache is stale) and the fetch is rejected, or the response is not ok, or its body is
  no JSON, then \<^verbatim>\<open>loadData\<close> returns \<^verbatim>\<open>false\<close>, the cache (players, alliances,
  servers, lastUpdated) is the one from before the call, and the error handler has
  received exactly one more report, from \<^verbatim>\<open>DataService.loadData\<close>.
\<close>

theorem failed_reload_keeps_cache:
  assumes "reload_needed ev forceRefresh st"
      and "transport_failure (fetch ev (requested_url nf st))"
  shows "fst (loadData nf ev forceRefresh st) = False
       \<and> cache (snd (loadData nf ev forceRefresh st)) = cache st
       \<and> (\<exists>e. errorLog (snd (loadData nf ev forceRefresh st)) =
                errorLog st @ [\<lparr>err = e, source = ''DataService.loadData'', showToUser = True\<rparr>])"
proof -
  have go: "\<not> (\<not> forceRefresh \<and> isDataLoaded st \<and> isCacheValid (now ev) st)"
    using assms(1) by (auto simp: reload_needed_def split: if_splits)
  show ?thesis
  proof (cases "fetch ev (requested_url nf st)")
    case FetchRejected
    then show ?thesis
      using go by (simp add: loadData_def Let_def requested_url_def handleError_def)
  next
    case (Response ok status b)
    then show ?thesis
      using go assms(2)
      by (cases b) (simp_all add: loadData_def Let_def requested_url_def handleError_def)
  qed
qed

theorem failed_reload_keeps_cache_witness:
  "reload_needed offline False new_DataService
   \<and> transport_failure (fetch offline (requested_url integer_format new_DataService))
   \<and> loadData integer_format offline False new_DataService =
       (False, new_DataService\<lparr>errorLog :=
          [\<lparr>err = NetworkError, source = ''DataService.loadData'', showToUser = True\<rparr>]\<rparr>)"
proof -
  have a: "reload_needed offline False new_DataService"
    by (simp add: reload_needed_def isDataLoaded_def new_DataService_def)
  have b: "transport_failure (fetch offline (requested_url integer_format new_DataService))"
    by (simp add: offline_def)
  have c: "loadData integer_format offline False new_DataService =
       (False, new_DataService\<lparr>errorLog :=
          [\<lparr>err = NetworkError, source = ''DataService.loadData'', showToUser = True\<rparr>]\<rparr>)"
    by (simp add: loadData_def offline_def isDataLoaded_def new_DataService_def Let_def
        handleError_def js_or_def)
  from failed_reload_keeps_cache [OF a b] a b c show ?thesis by simp
qed

subsection \<open>Looking a player up\<close>

text \<open>
  Claim C10.  \<^verbatim>\<open>getPlayerDetails(id)\<close> leaves the service, and so the cache, as it
  was.  When some cached player has an \<^verbatim>\<open>id\<close> equal to the argument (by \<open>===\<close>: the
  same type and value) it returns the first such player of the cache; when none has, it
  returns \<^verbatim>\<open>null\<close>, here \<open>None\<close>.
\<close>

theorem player_details_first_match:
  "snd (getPlayerDetails playerId st) = st
   \<and> ((\<exists>p \<in> set (players (cache st)). strict_eq (id' p) playerId) \<longrightarrow>
        (\<exists>i < length (players (cache st)).
           fst (getPlayerDetails playerId st) = Some (players (cache st) ! i)
           \<and> strict_eq (id' (players (cache st) ! i)) playerId
           \<and> (\<forall>j < i. \<not> strict_eq (id' (players (cache st) ! j)) playerId)))
   \<and> ((\<forall>p \<in> set (players (cache st)). \<not> strict_eq (id' p) playerId) \<longrightarrow>
        fst (getPlayerDetails playerId st) = None)"
proof (intro conjI impI)
  show "snd (getPlayerDetails playerId st) = st"
    by (simp add: getPlayerDetails_def)
next
  assume "\<exists>p \<in> set (players (cache st)). strict_eq (id' p) playerId"
  then have "find (\<lambda>p. strict_eq (id' p) playerId) (players (cache st)) \<noteq> None"
    by (auto simp: find_None_iff)
  then obtain q where q: "find (\<lambda>p. strict_eq (id' p) playerId) (players (cache st)) = Some q"
    by blast
  then obtain i where i: "i < length (players (cache st))"
      "strict_eq (id' (players (cache st) ! i)) playerId"
      "q = players (cache st) ! i"
      "\<forall>j < i. \<not> strict_eq (id' (players (cache st) ! j)) playerId"
    unfolding find_Some_iff by blast
  have "fst (getPlayerDetails playerId st) = Some (players (cache st) ! i)"
    using q i(3) by (simp add: getPlayerDetails_def)
  with i show "\<exists>i < length (players (cache st)).
           fst (getPlayerDetails playerId st) = Some (players (cache st) ! i)
           \<and> strict_eq (id' (players (cache st) ! i)) playerId
           \<and> (\<forall>j < i. \<not> strict_eq (id' (players (cache st) ! j)) playerId)"
    by blast
next
  assume "\<forall>p \<in> set (players (cache st)). \<not> strict_eq (id' p) playerId"
  then show "fst (getPlayerDetails playerId st) = None"
    by (simp add: getPlayerDetails_def find_None_iff)
qed

theorem player_details_first_match_witness:
  "fst (getPlayerDetails (JStr ''b'') two_players) = Some (players (cache two_players) ! 1)
   \<and> fst (getPlayerDetails (JStr ''c'') two_players) = None
   \<and> snd (getPlayerDetails (JStr ''b'') two_players) = two_players"
proof -
  have ex: "\<exists>p \<in> set (players (cache two_players)). strict_eq (id' p) (JStr ''b'')"
    by (simp add: two_players_def strict_eq_def)
  have no: "\<forall>p \<in> set (players (cache two_players)). \<not> strict_eq (id' p) (JStr ''c'')"
    by (simp add: two_players_def strict_eq_def)
  have found: "fst (getPlayerDetails (JStr ''b'') two_players) = Some (players (cache two_players) ! 1)"
    by (simp add: getPlayerDetails_def two_players_def strict_eq_def)
  from player_details_first_match [of "JStr ''b''" two_players]
       player_details_first_match [of "JStr ''c''" two_players] ex no found
  show ?thesis by blast
qed

subsection \<open>The ratio of a processed player\<close>

text \<open>
  Claim C1 says that every processed player has the ratio score / chests when chests
  is positive and 0 otherwise, never \<open>NaN\<close>, also when the raw score is absent.  The
  code divides the raw score, not the defaulted one: for the document
  \<^verbatim>\<open>{"players": [{"chests": 5}]}\<close> the processed player has score 0, chests 5 and the
  ratio \<open>NaN\<close>, where the claim asks for 0 / 5 = 0.
\<close>

theorem ratio_of_missing_score_is_NaN:
  "players (cache (snd (processData integer_format 0 True chests_only_doc new_DataService))) =
     [\<lparr>id' = JStr ''player_0'', name = JStr ''Unknown Player 0'', alliance = JStr [],
       server = JStr ''Unknown'', score = JNum (Fin 0), chests = JNum (Fin 5),
       ratio = JNum NaN\<rparr>]
   \<and> fst (processData integer_format 0 True chests_only_doc new_DataService) = True"
  by (simp add: processData_def raw_player_list_def chests_only_doc_def process_entry_def
      no_fields_def js_or_def js_gt_def js_div_def saveToCache_def)

text \<open>When the raw score and the raw chests are both finite numbers the ratio is the
  one of the invariant.\<close>

lemma ratio_of_two_numbers:
  assumes "process_entry i (Entry r) = Inr p"
      and "raw_score r = JNum (Fin s)" and "raw_chests r = JNum (Fin c)"
  shows "ratio p = (if 0 < c then JNum (Fin (s / c)) else JNum (Fin 0))"
proof -
  from assms(1) have "map_sum id ratio (process_entry i (Entry r)) = Inr (ratio p)"
    by simp
  then have "ratio p = (if js_gt (raw_chests r) (JNum (Fin 0))
                    then js_div (raw_score r) (raw_chests r) else JNum (Fin 0))"
    by (simp add: process_entry_def)
  with assms(2,3) show ?thesis
    by (simp add: js_gt_def js_div_def)
qed

subsection \<open>An unknown chart type\<close>

text \<open>
  Claim C4 says that for an unknown chart type and every options value exactly one
  error is reported.  With a cached player whose name is the number 42,
  \<^verbatim>\<open>getChartData('bogus', {filters: {playerSearch: 'a'}})\<close> returns the empty chart
  but reports two errors: the one of \<^verbatim>\<open>getFilteredPlayers\<close>, whose name filter
  throws, and then its own.
\<close>

theorem unknown_chart_two_reports:
  "getChartData integer_format (JStr ''bogus'') search_a numeric_name =
     (empty_chart,
      numeric_name\<lparr>errorLog :=
        [\<lparr>err = TypeError, source = ''DataService.getFilteredPlayers'', showToUser = False\<rparr>,
         \<lparr>err = UnknownChartType (JStr ''bogus''), source = ''DataService.getChartData'',
          showToUser = False\<rparr>]\<rparr>)"
  by (simp add: getChartData_def search_a_def numeric_name_def getFilteredPlayers_def
      filterPlayers_def by_playerSearch_def no_filters_def name_matches_def handleError_def
      new_DataService_def)

text \<open>
  Claim C4, amended.  For a chart type that is none of the six known ones and every
  options value, \<^verbatim>\<open>getChartData\<close> returns the empty chart and does not throw; it
  reports one error of its own, after the report that \<^verbatim>\<open>getFilteredPlayers\<close> makes
  when applying \<^verbatim>\<open>options.filters\<close> raises an error.  So it reports exactly one error
  when the filters apply without error, and exactly two when they do not; nothing else
  of the service changes.
\<close>

theorem unknown_chart_empty_and_reported:
  assumes "chartType \<notin> set known_chart_types"
  shows "fst (getChartData nf chartType options st) = empty_chart
       \<and> length (errorLog (snd (getChartData nf chartType options st))) =
           length (errorLog st) + (if filters_raise nf options st then 2 else 1)
       \<and> take (length (errorLog st)) (errorLog (snd (getChartData nf chartType options st))) =
           errorLog st
       \<and> source (last (errorLog (snd (getChartData nf chartType options st)))) =
           ''DataService.getChartData''
       \<and> (snd (getChartData nf chartType options st))\<lparr>errorLog := errorLog st\<rparr> = st"
proof (cases options)
  case NullOptions
  then show ?thesis
    by (simp add: getChartData_def handleError_def filters_raise_def)
next
  case (Options filters metric)
  have unknown: "chartType \<noteq> JStr ''score_distribution''"
    "chartType \<noteq> JStr ''chest_distribution''" "chartType \<noteq> JStr ''ratio_distribution''"
    "chartType \<noteq> JStr ''alliance_comparison''" "chartType \<noteq> JStr ''server_comparison''"
    "chartType \<noteq> JStr ''top_players''"
    using assms by (auto simp: known_chart_types_def)
  show ?thesis
  proof (cases filters)
    case None
    with Options unknown show ?thesis
      by (simp add: getChartData_def getFilteredPlayers_def handleError_def filters_raise_def)
  next
    case (Some f)
    with Options unknown show ?thesis
      by (cases "filterPlayers nf f (players (cache st))")
         (simp_all add: getChartData_def getFilteredPlayers_def handleError_def filters_raise_def)
  qed
qed

theorem unknown_chart_empty_and_reported_witness:
  "JStr ''bogus'' \<notin> set known_chart_types
   \<and> fst (getChartData integer_format (JStr ''bogus'') (Options (Some no_filters) JUndefined)
           new_DataService) = empty_chart
   \<and> length (errorLog (snd (getChartData integer_format (JStr ''bogus'')
           (Options (Some no_filters) JUndefined) new_DataService))) = 1"
proof -
  have a: "JStr ''bogus'' \<notin> set known_chart_types"
    by (simp add: known_chart_types_def)
  have b: "\<not> filters_raise integer_format (Options (Some no_filters) JUndefined) new_DataService"
    by (simp add: filters_raise_def filterPlayers_def by_playerSearch_def no_filters_def)
  have c: "errorLog new_DataService = []"
    by (simp add: new_DataService_def)
  from unknown_chart_empty_and_reported [OF a, of integer_format
         "Options (Some no_filters) JUndefined" new_DataService] a b c
  show ?thesis by simp
qed

subsection \<open>Numeric bounds without effect\<close>

lemma filterPlayers_cong:
  assumes "by_playerSearch f = by_playerSearch g"
      and "by_selectedServer f = by_selectedServer g"
      and "by_selectedAlliance f = by_selectedAlliance g"
      and "by_minScore nf f = by_minScore nf g" and "by_maxScore nf f = by_maxScore nf g"
      and "by_minChests nf f = by_minChests nf g" and "by_maxChests nf f = by_maxChests nf g"
      and "by_minRatio nf f = by_minRatio nf g" and "by_maxRatio nf f = by_maxRatio nf g"
  shows "filterPlayers nf f ps = filterPlayers nf g ps"
  unfolding filterPlayers_def assms by (rule refl)

lemmas step_defs =
  by_playerSearch_def by_selectedServer_def by_selectedAlliance_def by_minScore_def
  by_maxScore_def by_minChests_def by_maxChests_def by_minRatio_def by_maxRatio_def

lemma filterPlayers_minScore:
  "no_bound (parseInt nf) (minScore f) \<Longrightarrow>
   filterPlayers nf f ps = filterPlayers nf (f\<lparr>minScore := JUndefined\<rparr>) ps"
  by (rule filterPlayers_cong) (simp_all add: fun_eq_iff step_defs no_bound_def split: if_splits)

lemma filterPlayers_maxScore:
  "no_bound (parseInt nf) (maxScore f) \<Longrightarrow>
   filterPlayers nf f ps = filterPlayers nf (f\<lparr>maxScore := JUndefined\<rparr>) ps"
  by (rule filterPlayers_cong) (simp_all add: fun_eq_iff step_defs no_bound_def split: if_splits)

lemma filterPlayers_minChests:
  "no_bound (parseInt nf) (minChests f) \<Longrightarrow>
   filterPlayers nf f ps = filterPlayers nf (f\<lparr>minChests := JUndefined\<rparr>) ps"
  by (rule filterPlayers_cong) (simp_all add: fun_eq_iff step_defs no_bound_def split: if_splits)

lemma filterPlayers_maxChests:
  "no_bound (parseInt nf) (maxChests f) \<Longrightarrow>
   filterPlayers nf f ps = filterPlayers nf (f\<lparr>maxChests := JUndefined\<rparr>) ps"
  by (rule filterPlayers_cong) (simp_all add: fun_eq_iff step_defs no_bound_def split: if_splits)

lemma filterPlayers_minRatio:
  "no_bound (parseFloat nf) (minRatio f) \<Longrightarrow>
   filterPlayers nf f ps = filterPlayers nf (f\<lparr>minRatio := JUndefined\<rparr>) ps"
  by (rule filterPlayers_cong) (simp_all add: fun_eq_iff step_defs no_bound_def split: if_splits)

lemma filterPlayers_maxRatio:
  "no_bound (parseFloat nf) (maxRatio f) \<Longrightarrow>
   filterPlayers nf f ps = filterPlayers nf (f\<lparr>maxRatio := JUndefined\<rparr>) ps"
  by (rule filterPlayers_cong) (simp_all add: fun_eq_iff step_defs no_bound_def split: if_splits)

text \<open>When \<^verbatim>\<open>parseInt\<close> and \<^verbatim>\<open>parseFloat\<close> give \<open>NaN\<close>: exactly on the texts
  without a leading number.\<close>

lemma takeWhile_Nil_hd: "(takeWhile P xs = []) = (case xs of [] \<Rightarrow> True | x # _ \<Rightarrow> \<not> P x)"
  by (cases xs) simp_all

lemma parseInt_str_NaN: "isNaN (parseInt_str s) = no_leading_integer s"
proof -
  define t where "t = dropWhile is_ws s"
  have l: "isNaN (parseInt_str s) =
      (takeWhile is_digit
        (case t of [] \<Rightarrow> [] | c # r \<Rightarrow> if c = CHR ''+'' \<or> c = CHR ''-'' then r else t) = [])"
    by (simp add: parseInt_str_def Let_def flip: t_def)
  have r: "no_leading_integer s =
      (case (case t of [] \<Rightarrow> [] | c # r \<Rightarrow> if c = CHR ''+'' \<or> c = CHR ''-'' then r else c # r) of
         [] \<Rightarrow> True | c # r \<Rightarrow> \<not> is_digit c)"
    by (simp add: no_leading_integer_def unsigned_text_def flip: t_def)
  show ?thesis
    unfolding l r by (cases t) (simp_all add: takeWhile_Nil_hd)
qed

lemma not_digit_point: "\<not> is_digit CHR ''.''" "\<not> is_digit CHR ''I''"
  by (simp_all add: is_digit_def)

lemma parse_unsigned_None:
  "(parse_unsigned u = None) =
     (case u of
        [] \<Rightarrow> True
      | c # r \<Rightarrow>
          if is_digit c then False
          else if c = CHR ''.'' then (case r of [] \<Rightarrow> True | d # r' \<Rightarrow> \<not> is_digit d)
          else take 8 (c # r) \<noteq> ''Infinity'')"
proof (cases u)
  case Nil
  then show ?thesis by (simp add: parse_unsigned_def)
next
  case (Cons c r)
  show ?thesis
  proof (cases "is_digit c")
    case True
    then have "c \<noteq> CHR ''I''" using not_digit_point by auto
    with True Cons show ?thesis
      by (simp add: parse_unsigned_def Let_def split: prod.split)
  next
    case False
    show ?thesis
    proof (cases "c = CHR ''.''")
      case True
      with Cons show ?thesis
        by (cases r) (simp_all add: parse_unsigned_def Let_def not_digit_point takeWhile_Nil_hd
            split: prod.split)
    next
      case notdot: False
      with False Cons show ?thesis
        by (simp add: parse_unsigned_def Let_def split: prod.split)
    qed
  qed
qed

lemma parseFloat_str_NaN: "isNaN (parseFloat_str s) = no_leading_decimal s"
proof -
  have a: "isNaN (case x of None \<Rightarrow> NaN | Some (v, _) \<Rightarrow> v) = (x = None)"
    if "\<And>v r. x = Some (v, r) \<Longrightarrow> \<not> isNaN v" for x :: "(jsnum \<times> string) option"
    using that by (cases x) auto
  have fin: "\<not> isNaN v" if "parse_unsigned u = Some (v, r)" for u v r
    using that by (auto simp: parse_unsigned_def Let_def split: if_splits prod.splits)
  have neg: "\<not> isNaN (num_neg v)" if "\<not> isNaN v" for v
    using that by (cases v) simp_all
  have fin': "\<not> isNaN v" if "parse_decimal t = Some (v, r)" for t v r
    using that fin neg by (auto simp: parse_decimal_def split: list.splits if_splits)
  define t where "t = dropWhile is_ws s"
  have "isNaN (parseFloat_str s) = (parse_decimal t = None)"
    unfolding parseFloat_str_def t_def by (rule a) (rule fin')
  also have "\<dots> =
      (case (case t of [] \<Rightarrow> [] | c # r \<Rightarrow> if c = CHR ''+'' \<or> c = CHR ''-'' then r else c # r) of
        [] \<Rightarrow> True
      | c # r \<Rightarrow>
          if is_digit c then False
          else if c = CHR ''.'' then (case r of [] \<Rightarrow> True | d # r' \<Rightarrow> \<not> is_digit d)
          else take 8 (c # r) \<noteq> ''Infinity'')"
  proof (cases t)
    case Nil
    then show ?thesis by (simp add: parse_decimal_def)
  next
    case (Cons c r)
    then show ?thesis
      by (simp add: parse_decimal_def parse_unsigned_None)
  qed
  also have "\<dots> = no_leading_decimal s"
    by (simp add: no_leading_decimal_def unsigned_text_def flip: t_def)
  finally show ?thesis .
qed

lemma no_bound_parseInt: "no_bound (parseInt nf) v = without_integer nf v"
  by (simp add: no_bound_def without_integer_def parseInt_def parseInt_str_NaN)

lemma no_bound_parseFloat: "no_bound (parseFloat nf) v = without_decimal nf v"
  by (simp add: no_bound_def without_decimal_def parseFloat_def parseFloat_str_NaN)

text \<open>
  Claim C3 says that a numeric bound that is unparseable as a number imposes no
  constraint.  The text \<open>200abc\<close> is no number (its conversion to a number is
  \<open>NaN\<close>), but \<^verbatim>\<open>parseInt\<close> reads its leading digits: with \<^verbatim>\<open>{minScore: "200abc"}\<close>
  only the player with score 300 of the three cached players is returned, where
  \<^verbatim>\<open>{}\<close> returns all three.
\<close>

theorem bound_with_leading_number_constrains:
  "ToNumber (JStr ''200abc'') = NaN
   \<and> fst (getFilteredPlayers integer_format (Some (no_filters\<lparr>minScore := JStr ''200abc''\<rparr>))
           two_players) = [players (cache two_players) ! 1]
   \<and> fst (getFilteredPlayers integer_format (Some no_filters) two_players) =
       players (cache two_players)"
  by code_simp

text \<open>
  Claim C3, amended.  A numeric bound of the filter object that is absent, falsy (the
  number 0 and the empty string included) or whose text has no leading decimal number
  (after white space and an optional sign: no digit for \<^verbatim>\<open>minScore\<close>, \<^verbatim>\<open>maxScore\<close>,
  \<^verbatim>\<open>minChests\<close>, \<^verbatim>\<open>maxChests\<close>; no digit, no point with a digit and no \<open>Infinity\<close> for
  \<^verbatim>\<open>minRatio\<close>, \<^verbatim>\<open>maxRatio\<close>) imposes no constraint: \<^verbatim>\<open>getFilteredPlayers\<close> gives the
  same result, and the same service, as with that field removed, on every service and
  for every other content of the filter object.  These are exactly the texts that
  \<^verbatim>\<open>parseInt\<close> and \<^verbatim>\<open>parseFloat\<close> turn into \<open>NaN\<close>.  In particular
  \<^verbatim>\<open>{minScore: "abc"}\<close> behaves as \<^verbatim>\<open>{}\<close>.
\<close>

theorem bound_without_number_is_no_constraint:
  "(without_integer nf (minScore f) \<longrightarrow>
      getFilteredPlayers nf (Some f) st = getFilteredPlayers nf (Some (f\<lparr>minScore := JUndefined\<rparr>)) st)
   \<and> (without_integer nf (maxScore f) \<longrightarrow>
      getFilteredPlayers nf (Some f) st = getFilteredPlayers nf (Some (f\<lparr>maxScore := JUndefined\<rparr>)) st)
   \<and> (without_integer nf (minChests f) \<longrightarrow>
      getFilteredPlayers nf (Some f) st = getFilteredPlayers nf (Some (f\<lparr>minChests := JUndefined\<rparr>)) st)
   \<and> (without_integer nf (maxChests f) \<longrightarrow>
      getFilteredPlayers nf (Some f) st = getFilteredPlayers nf (Some (f\<lparr>maxChests := JUndefined\<rparr>)) st)
   \<and> (without_decimal nf (minRatio f) \<longrightarrow>
      getFilteredPlayers nf (Some f) st = getFilteredPlayers nf (Some (f\<lparr>minRatio := JUndefined\<rparr>)) st)
   \<and> (without_decimal nf (maxRatio f) \<longrightarrow>
      getFilteredPlayers nf (Some f) st = getFilteredPlayers nf (Some (f\<lparr>maxRatio := JUndefined\<rparr>)) st)
   \<and> without_integer nf JUndefined \<and> without_integer nf (JNum (Fin 0))
   \<and> without_integer nf (JStr []) \<and> without_integer nf (JStr ''abc'')
   \<and> without_decimal nf JUndefined \<and> without_decimal nf (JNum (Fin 0))
   \<and> without_decimal nf (JStr []) \<and> without_decimal nf (JStr ''abc'')
   \<and> isNaN (parseInt nf v) = no_leading_integer (ToString nf v)
   \<and> isNaN (parseFloat nf v) = no_leading_decimal (ToString nf v)
   \<and> getFilteredPlayers nf (Some (no_filters\<lparr>minScore := JStr ''abc''\<rparr>)) st =
       getFilteredPlayers nf (Some no_filters) st"
proof -
  have six: "without_integer nf (minScore f) \<longrightarrow>
      getFilteredPlayers nf (Some f) st = getFilteredPlayers nf (Some (f\<lparr>minScore := JUndefined\<rparr>)) st"
    "without_integer nf (maxScore f) \<longrightarrow>
      getFilteredPlayers nf (Some f) st = getFilteredPlayers nf (Some (f\<lparr>maxScore := JUndefined\<rparr>)) st"
    "without_integer nf (minChests f) \<longrightarrow>
      getFilteredPlayers nf (Some f) st = getFilteredPlayers nf (Some (f\<lparr>minChests := JUndefined\<rparr>)) st"
    "without_integer nf (maxChests f) \<longrightarrow>
      getFilteredPlayers nf (Some f) st = getFilteredPlayers nf (Some (f\<lparr>maxChests := JUndefined\<rparr>)) st"
    "without_decimal nf (minRatio f) \<longrightarrow>
      getFilteredPlayers nf (Some f) st = getFilteredPlayers nf (Some (f\<lparr>minRatio := JUndefined\<rparr>)) st"
    "without_decimal nf (maxRatio f) \<longrightarrow>
      getFilteredPlayers nf (Some f) st = getFilteredPlayers nf (Some (f\<lparr>maxRatio := JUndefined\<rparr>)) st"
    by (simp_all add: getFilteredPlayers_def
        flip: no_bound_parseInt no_bound_parseFloat filterPlayers_minScore filterPlayers_maxScore
        filterPlayers_minChests filterPlayers_maxChests filterPlayers_minRatio
        filterPlayers_maxRatio)
  have falsy: "without_integer nf JUndefined" "without_integer nf (JNum (Fin 0))"
    "without_integer nf (JStr [])" "without_decimal nf JUndefined"
    "without_decimal nf (JNum (Fin 0))" "without_decimal nf (JStr [])"
    by (simp_all add: without_integer_def without_decimal_def)
  have abc: "without_integer nf (JStr ''abc'')" "without_decimal nf (JStr ''abc'')"
    by (simp_all add: without_integer_def without_decimal_def no_leading_integer_def
        no_leading_decimal_def unsigned_text_def is_ws_def is_digit_def)
  have parses: "isNaN (parseInt nf v) = no_leading_integer (ToString nf v)"
    "isNaN (parseFloat nf v) = no_leading_decimal (ToString nf v)"
    by (simp_all add: parseInt_def parseFloat_def parseInt_str_NaN parseFloat_str_NaN)
  have "no_bound (parseInt nf) (minScore (no_filters\<lparr>minScore := JStr ''abc''\<rparr>))"
    using abc(1) by (simp add: no_bound_parseInt)
  then have "filterPlayers nf (no_filters\<lparr>minScore := JStr ''abc''\<rparr>) (players (cache st)) =
      filterPlayers nf (no_filters\<lparr>minScore := JStr ''abc'', minScore := JUndefined\<rparr>) (players (cache st))"
    by (rule filterPlayers_minScore)
  also have "no_filters\<lparr>minScore := JStr ''abc'', minScore := JUndefined\<rparr> = no_filters"
    by (simp add: no_filters_def)
  finally have example: "getFilteredPlayers nf (Some (no_filters\<lparr>minScore := JStr ''abc''\<rparr>)) st =
       getFilteredPlayers nf (Some no_filters) st"
    by (simp add: getFilteredPlayers_def)
  from six falsy abc parses example show ?thesis by blast
qed

theorem bound_without_number_is_no_constraint_witness:
  "without_integer integer_format (minScore search_B_idle_bounds)
   \<and> without_integer integer_format (maxScore search_B_idle_bounds)
   \<and> without_integer integer_format (minChests search_B_idle_bounds)
   \<and> without_integer integer_format (maxChests search_B_idle_bounds)
   \<and> without_decimal integer_format (minRatio search_B_idle_bounds)
   \<and> without_decimal integer_format (maxRatio search_B_idle_bounds)
   \<and> getFilteredPlayers integer_format (Some search_B_idle_bounds) two_players =
       getFilteredPlayers integer_format (Some (search_B_idle_bounds\<lparr>minScore := JUndefined\<rparr>))
         two_players
   \<and> getFilteredPlayers integer_format (Some search_B_idle_bounds) two_players =
       getFilteredPlayers integer_format (Some (search_B_idle_bounds\<lparr>maxRatio := JUndefined\<rparr>))
         two_players
   \<and> fst (getFilteredPlayers integer_format (Some search_B_idle_bounds) two_players) =
       [players (cache two_players) ! 1, players (cache two_players) ! 2]
   \<and> without_integer integer_format (minScore search_B_max_200)
   \<and> getFilteredPlayers integer_format (Some search_B_max_200) two_players =
       getFilteredPlayers integer_format (Some (search_B_max_200\<lparr>minScore := JUndefined\<rparr>))
         two_players
   \<and> fst (getFilteredPlayers integer_format (Some search_B_max_200) two_players) =
       [players (cache two_players) ! 2]"
proof -
  have h: "without_integer integer_format (minScore search_B_idle_bounds)"
    "without_integer integer_format (maxScore search_B_idle_bounds)"
    "without_integer integer_format (minChests search_B_idle_bounds)"
    "without_integer integer_format (maxChests search_B_idle_bounds)"
    "without_decimal integer_format (minRatio search_B_idle_bounds)"
    "without_decimal integer_format (maxRatio search_B_idle_bounds)"
    "without_integer integer_format (minScore search_B_max_200)"
    by (simp_all add: search_B_max_200_def search_B_idle_bounds_def idle_bounds_def
        without_integer_def without_decimal_def no_leading_integer_def no_leading_decimal_def
        unsigned_text_def is_ws_def is_digit_def)
  have v: "fst (getFilteredPlayers integer_format (Some search_B_idle_bounds) two_players) =
       [players (cache two_players) ! 1, players (cache two_players) ! 2]"
    "fst (getFilteredPlayers integer_format (Some search_B_max_200) two_players) =
       [players (cache two_players) ! 2]"
    by code_simp+
  from bound_without_number_is_no_constraint [of integer_format search_B_idle_bounds two_players]
       bound_without_number_is_no_constraint [of integer_format search_B_max_200 two_players]
       h v
  show ?thesis by blast
qed

subsection \<open>Filtering twice\<close>

lemma filter_throwing_Inr:
  "filter_throwing g ps = Inr qs \<Longrightarrow> qs = filter (\<lambda>p. g p = Inr True) ps"
proof (induction ps arbitrary: qs)
  case Nil
  then show ?case by simp
next
  case (Cons p ps)
  then show ?case
    by (auto split: sum.splits if_splits)
qed

lemma filter_throwing_all_kept:
  "list_all (\<lambda>p. g p = Inr True) qs \<Longrightarrow> filter_throwing g qs = Inr qs"
  by (induction qs) simp_all

text \<open>Each step after the name search is a \<open>filter\<close>, and so are the eight together.\<close>

lemma filter_steps:
  "\<exists>P. by_selectedServer f = filter P" "\<exists>P. by_selectedAlliance f = filter P"
  "\<exists>P. by_minScore nf f = filter P" "\<exists>P. by_maxScore nf f = filter P"
  "\<exists>P. by_minChests nf f = filter P" "\<exists>P. by_maxChests nf f = filter P"
  "\<exists>P. by_minRatio nf f = filter P" "\<exists>P. by_maxRatio nf f = filter P"
proof -
  have skip: "(\<lambda>ps::player list. ps) = filter (\<lambda>p. True)" by (simp add: fun_eq_iff)
  show "\<exists>P. by_selectedServer f = filter P"
    by (cases "truthy (selectedServer f)") (auto simp: by_selectedServer_def fun_eq_iff intro: exI [of _ "\<lambda>p. True"])
  show "\<exists>P. by_selectedAlliance f = filter P"
    by (cases "truthy (selectedAlliance f)") (auto simp: by_selectedAlliance_def fun_eq_iff intro: exI [of _ "\<lambda>p. True"])
  show "\<exists>P. by_minScore nf f = filter P"
    by (cases "truthy (minScore f) \<and> \<not> isNaN (parseInt nf (minScore f))")
       (auto simp: by_minScore_def fun_eq_iff Let_def intro: exI [of _ "\<lambda>p. True"])
  show "\<exists>P. by_maxScore nf f = filter P"
    by (cases "truthy (maxScore f) \<and> \<not> isNaN (parseInt nf (maxScore f))")
       (auto simp: by_maxScore_def fun_eq_iff Let_def intro: exI [of _ "\<lambda>p. True"])
  show "\<exists>P. by_minChests nf f = filter P"
    by (cases "truthy (minChests f) \<and> \<not> isNaN (parseInt nf (minChests f))")
       (auto simp: by_minChests_def fun_eq_iff Let_def intro: exI [of _ "\<lambda>p. True"])
  show "\<exists>P. by_maxChests nf f = filter P"
    by (cases "truthy (maxChests f) \<and> \<not> isNaN (parseInt nf (maxChests f))")
       (auto simp: by_maxChests_def fun_eq_iff Let_def intro: exI [of _ "\<lambda>p. True"])
  show "\<exists>P. by_minRatio nf f = filter P"
    by (cases "truthy (minRatio f) \<and> \<not> isNaN (parseFloat nf (minRatio f))")
       (auto simp: by_minRatio_def fun_eq_iff Let_def intro: exI [of _ "\<lambda>p. True"])
  show "\<exists>P. by_maxRatio nf f = filter P"
    by (cases "truthy (maxRatio f) \<and> \<not> isNaN (parseFloat nf (maxRatio f))")
       (auto simp: by_maxRatio_def fun_eq_iff Let_def intro: exI [of _ "\<lambda>p. True"])
qed

lemma filterPlayers_shape:
  "\<exists>Q. \<forall>ps. filterPlayers nf f ps =
      (case by_playerSearch f ps of Inl e \<Rightarrow> Inl e | Inr ps1 \<Rightarrow> Inr (filter Q ps1))"
proof -
  obtain P1 where 1: "by_selectedServer f = filter P1" using filter_steps(1) by blast
  obtain P2 where 2: "by_selectedAlliance f = filter P2" using filter_steps(2) by blast
  obtain P3 where 3: "by_minScore nf f = filter P3" using filter_steps(3) by blast
  obtain P4 where 4: "by_maxScore nf f = filter P4" using filter_steps(4) by blast
  obtain P5 where 5: "by_minChests nf f = filter P5" using filter_steps(5) by blast
  obtain P6 where 6: "by_maxChests nf f = filter P6" using filter_steps(6) by blast
  obtain P7 where 7: "by_minRatio nf f = filter P7" using filter_steps(7) by blast
  obtain P8 where 8: "by_maxRatio nf f = filter P8" using filter_steps(8) by blast
  have "\<forall>ps. filterPlayers nf f ps =
      (case by_playerSearch f ps of Inl e \<Rightarrow> Inl e
       | Inr ps1 \<Rightarrow> Inr (filter (\<lambda>p. P1 p \<and> P2 p \<and> P3 p \<and> P4 p \<and> P5 p \<and> P6 p \<and> P7 p \<and> P8 p) ps1))"
    by (auto simp: filterPlayers_def 1 2 3 4 5 6 7 8 split: sum.split intro: filter_cong)
  then show ?thesis by blast
qed

lemma by_playerSearch_again:
  assumes "by_playerSearch f ps = Inr ps1" and "set qs \<subseteq> set ps1"
  shows "by_playerSearch f qs = Inr qs"
proof (cases "truthy (playerSearch f)")
  case False
  then show ?thesis by (simp add: by_playerSearch_def)
next
  case True
  with assms(1) obtain s where s: "playerSearch f = JStr s"
    by (cases "playerSearch f") (simp_all add: by_playerSearch_def)
  let ?g = "name_matches (toLowerCase s)"
  from assms(1) True s have "filter_throwing ?g ps = Inr ps1"
    by (simp add: by_playerSearch_def)
  then have "ps1 = filter (\<lambda>p. ?g p = Inr True) ps"
    by (rule filter_throwing_Inr)
  with assms(2) have "list_all (\<lambda>p. ?g p = Inr True) qs"
    by (auto simp: list_all_iff)
  then have "filter_throwing ?g qs = Inr qs"
    by (rule filter_throwing_all_kept)
  with True s show ?thesis by (simp add: by_playerSearch_def)
qed

lemma filterPlayers_idem:
  assumes "filterPlayers nf f ps = Inr qs"
  shows "filterPlayers nf f qs = Inr qs"
proof -
  from filterPlayers_shape obtain Q where
    Q: "\<And>xs. filterPlayers nf f xs =
      (case by_playerSearch f xs of Inl e \<Rightarrow> Inl e | Inr ps1 \<Rightarrow> Inr (filter Q ps1))"
    by blast
  from assms Q [of ps] obtain ps1 where ps1: "by_playerSearch f ps = Inr ps1" "qs = filter Q ps1"
    by (auto split: sum.splits)
  then have "by_playerSearch f qs = Inr qs"
    by (intro by_playerSearch_again [of f ps ps1]) auto
  with Q [of qs] ps1(2) show ?thesis by simp
qed

lemma filterPlayers_Nil: "filterPlayers nf f [] = Inr [] \<or> isl (filterPlayers nf f [])"
proof -
  from filterPlayers_shape obtain Q where
    "\<And>xs. filterPlayers nf f xs =
      (case by_playerSearch f xs of Inl e \<Rightarrow> Inl e | Inr ps1 \<Rightarrow> Inr (filter Q ps1))"
    by blast
  then show ?thesis
    by (cases "playerSearch f") (simp_all add: by_playerSearch_def)
qed

text \<open>
  Claim C8.  Filtering is idempotent.  Putting the list that
  \<^verbatim>\<open>getFilteredPlayers(spec)\<close> returns in the place of the cached players and filtering
  with the same spec again returns that list unchanged; this covers the calls that end
  in the \<^verbatim>\<open>catch\<close> branch and return the empty list.  And when the filter steps of a
  spec run without error on a list, they run without error on their result and leave
  it as it is.
\<close>

theorem filtering_is_idempotent:
  "fst (getFilteredPlayers nf filters
         (st\<lparr>cache := (cache st)\<lparr>players := fst (getFilteredPlayers nf filters st)\<rparr>\<rparr>)) =
     fst (getFilteredPlayers nf filters st)
   \<and> (filterPlayers nf f ps = Inr qs \<longrightarrow> filterPlayers nf f qs = Inr qs)"
proof
  show "fst (getFilteredPlayers nf filters
         (st\<lparr>cache := (cache st)\<lparr>players := fst (getFilteredPlayers nf filters st)\<rparr>\<rparr>)) =
     fst (getFilteredPlayers nf filters st)"
  proof (cases filters)
    case None
    then show ?thesis by (simp add: getFilteredPlayers_def)
  next
    case (Some g)
    show ?thesis
    proof (cases "filterPlayers nf g (players (cache st))")
      case (Inl e)
      with Some filterPlayers_Nil [of nf g] show ?thesis
        by (auto simp: getFilteredPlayers_def split: sum.splits)
    next
      case (Inr rs)
      with Some filterPlayers_idem [OF Inr] show ?thesis
        by (simp add: getFilteredPlayers_def)
    qed
  qed
next
  show "filterPlayers nf f ps = Inr qs \<longrightarrow> filterPlayers nf f qs = Inr qs"
    by (simp add: filterPlayers_idem)
qed

theorem filtering_is_idempotent_witness:
  "filterPlayers integer_format search_B_min_100 (players (cache two_players)) =
       Inr [players (cache two_players) ! 1]
   \<and> filterPlayers integer_format search_B_min_100 [players (cache two_players) ! 1] =
       Inr [players (cache two_players) ! 1]"
proof -
  have a: "filterPlayers integer_format search_B_min_100 (players (cache two_players)) =
       Inr [players (cache two_players) ! 1]"
    by code_simp
  from filtering_is_idempotent [of integer_format None two_players search_B_min_100
         "players (cache two_players)" "[players (cache two_players) ! 1]"] a
  show ?thesis by simp
qed

subsection \<open>Distribution charts\<close>

lemma ones_sum: "sum_list (map (\<lambda>r. if P r then 1 else 0) rs) = length (filter P rs)"
  by (induction rs) simp_all

lemma range_counts_sum:
  "list_all (\<lambda>p. length (filter (in_range (field p)) rs) = 1) ps \<Longrightarrow>
   sum_list (range_counts rs field ps) = length ps"
proof (induction ps)
  case Nil
  then show ?case by (simp add: range_counts_def)
next
  case (Cons p ps)
  have "sum_list (range_counts rs field (p # ps)) =
        sum_list (map (\<lambda>r. (if in_range (field p) r then 1 else 0)
                          + length (filter (\<lambda>q. in_range (field q) r) ps)) rs)"
    unfolding range_counts_def by (rule arg_cong [where f = sum_list], rule map_cong) simp_all
  also have "\<dots> = length (filter (in_range (field p)) rs) + sum_list (range_counts rs field ps)"
    by (simp add: sum_list_addf ones_sum range_counts_def)
  finally show ?case using Cons by simp
qed

lemma in_range_number:
  "in_range (JNum (Fin x)) r = (num_le (range_min r) (Fin x) \<and> num_lt (Fin x) (range_max r))"
  by (cases "range_min r"; cases "range_max r")
     (auto simp: in_range_def js_ge_def js_lt_def num_le_def)

lemma score_range_unique:
  assumes "nonneg_finite v"
  shows "length (filter (in_range v) score_ranges) = 1"
proof -
  from assms obtain x where v: "v = JNum (Fin x)" and x: "0 \<le> x"
    by (cases v rule: nonneg_finite.cases) simp_all
  consider "x < 1000" | "1000 \<le> x" "x < 5000" | "5000 \<le> x" "x < 10000"
    | "10000 \<le> x" "x < 50000" | "50000 \<le> x" "x < 100000" | "100000 \<le> x" "x < 500000"
    | "500000 \<le> x" "x < 1000000" | "1000000 \<le> x"
    by linarith
  then show ?thesis
    using x by cases (simp_all add: v score_ranges_def in_range_number num_le_def)
qed

lemma chest_range_unique:
  assumes "nonneg_finite v"
  shows "length (filter (in_range v) chest_ranges) = 1"
proof -
  from assms obtain x where v: "v = JNum (Fin x)" and x: "0 \<le> x"
    by (cases v rule: nonneg_finite.cases) simp_all
  consider "x < 10" | "10 \<le> x" "x < 50" | "50 \<le> x" "x < 100"
    | "100 \<le> x" "x < 500" | "500 \<le> x" "x < 1000" | "1000 \<le> x" "x < 5000"
    | "5000 \<le> x" "x < 10000" | "10000 \<le> x"
    by linarith
  then show ?thesis
    using x by cases (simp_all add: v chest_ranges_def in_range_number num_le_def)
qed

lemma ratio_range_unique:
  assumes "nonneg_finite v"
  shows "length (filter (in_range v) ratio_ranges) = 1"
proof -
  from assms obtain x where v: "v = JNum (Fin x)" and x: "0 \<le> x"
    by (cases v rule: nonneg_finite.cases) simp_all
  consider "x < 10" | "10 \<le> x" "x < 50" | "50 \<le> x" "x < 100"
    | "100 \<le> x" "x < 200" | "200 \<le> x" "x < 500" | "500 \<le> x" "x < 1000"
    | "1000 \<le> x"
    by linarith
  then show ?thesis
    using x by cases (simp_all add: v ratio_ranges_def in_range_number num_le_def)
qed

text \<open>
  Claim C6.  In a player list in which every score is a finite number that is not
  negative, each player is in exactly one of the eight score ranges (lower bound
  inclusive, upper bound exclusive, the last range unbounded above; bounds 0, 1000,
  5000, 10000, 50000, 100000, 500000, 1000000), so the counts that the score
  distribution chart returns add up to the length of the list.  The same holds for
  the chest distribution and the ratio distribution over their tables, when every
  chest count, respectively every ratio, is a finite number that is not negative.
\<close>

theorem distribution_counts_each_player_once:
  "(list_all (\<lambda>p. nonneg_finite (score p)) ps \<longrightarrow>
      list_all (\<lambda>p. length (filter (in_range (score p)) score_ranges) = 1) ps
      \<and> sum_list (range_counts score_ranges score ps) = length ps)
   \<and> (list_all (\<lambda>p. nonneg_finite (chests p)) ps \<longrightarrow>
      list_all (\<lambda>p. length (filter (in_range (chests p)) chest_ranges) = 1) ps
      \<and> sum_list (range_counts chest_ranges chests ps) = length ps)
   \<and> (list_all (\<lambda>p. nonneg_finite (ratio p)) ps \<longrightarrow>
      list_all (\<lambda>p. length (filter (in_range (ratio p)) ratio_ranges) = 1) ps
      \<and> sum_list (range_counts ratio_ranges ratio ps) = length ps)
   \<and> series (createScoreDistributionData ps) =
       [\<lparr>series_name = ''Players'',
         data = map (\<lambda>n. JNum (Fin (real n))) (range_counts score_ranges score ps)\<rparr>]
   \<and> series (createChestDistributionData ps) =
       [\<lparr>series_name = ''Players'',
         data = map (\<lambda>n. JNum (Fin (real n))) (range_counts chest_ranges chests ps)\<rparr>]
   \<and> series (createRatioDistributionData ps) =
       [\<lparr>series_name = ''Players'',
         data = map (\<lambda>n. JNum (Fin (real n))) (range_counts ratio_ranges ratio ps)\<rparr>]
   \<and> in_range (JNum (Fin x)) r = (num_le (range_min r) (Fin x) \<and> num_lt (Fin x) (range_max r))
   \<and> map range_min score_ranges =
       [Fin 0, Fin 1000, Fin 5000, Fin 10000, Fin 50000, Fin 100000, Fin 500000, Fin 1000000]
   \<and> map range_max score_ranges =
       [Fin 1000, Fin 5000, Fin 10000, Fin 50000, Fin 100000, Fin 500000, Fin 1000000, PosInf]"
proof -
  have s: "list_all (\<lambda>p. length (filter (in_range (score p)) score_ranges) = 1) ps"
    if "list_all (\<lambda>p. nonneg_finite (score p)) ps"
    using that by (simp add: list_all_iff score_range_unique)
  have c: "list_all (\<lambda>p. length (filter (in_range (chests p)) chest_ranges) = 1) ps"
    if "list_all (\<lambda>p. nonneg_finite (chests p)) ps"
    using that by (simp add: list_all_iff chest_range_unique)
  have r: "list_all (\<lambda>p. length (filter (in_range (ratio p)) ratio_ranges) = 1) ps"
    if "list_all (\<lambda>p. nonneg_finite (ratio p)) ps"
    using that by (simp add: list_all_iff ratio_range_unique)
  have charts: "series (createScoreDistributionData ps) =
       [\<lparr>series_name = ''Players'',
         data = map (\<lambda>n. JNum (Fin (real n))) (range_counts score_ranges score ps)\<rparr>]"
    "series (createChestDistributionData ps) =
       [\<lparr>series_name = ''Players'',
         data = map (\<lambda>n. JNum (Fin (real n))) (range_counts chest_ranges chests ps)\<rparr>]"
    "series (createRatioDistributionData ps) =
       [\<lparr>series_name = ''Players'',
         data = map (\<lambda>n. JNum (Fin (real n))) (range_counts ratio_ranges ratio ps)\<rparr>]"
    by (simp_all add: createScoreDistributionData_def createChestDistributionData_def
        createRatioDistributionData_def distribution_chart_def)
  have bounds: "map range_min score_ranges =
       [Fin 0, Fin 1000, Fin 5000, Fin 10000, Fin 50000, Fin 100000, Fin 500000, Fin 1000000]"
    "map range_max score_ranges =
       [Fin 1000, Fin 5000, Fin 10000, Fin 50000, Fin 100000, Fin 500000, Fin 1000000, PosInf]"
    by (simp_all add: score_ranges_def)
  show ?thesis
    using s c r range_counts_sum [of score score_ranges ps]
      range_counts_sum [of chests chest_ranges ps] range_counts_sum [of ratio ratio_ranges ps]
      charts bounds in_range_number [of x r]
    by blast
qed

theorem distribution_counts_each_player_once_witness:
  "list_all (\<lambda>p. nonneg_finite (score p)) three_scores
   \<and> list_all (\<lambda>p. nonneg_finite (chests p)) three_scores
   \<and> list_all (\<lambda>p. nonneg_finite (ratio p)) three_scores
   \<and> range_counts score_ranges score three_scores = [1, 1, 0, 0, 0, 0, 0, 1]
   \<and> sum_list (range_counts score_ranges score three_scores) = length three_scores
   \<and> sum_list (range_counts chest_ranges chests three_scores) = length three_scores
   \<and> sum_list (range_counts ratio_ranges ratio three_scores) = length three_scores"
proof -
  have h: "list_all (\<lambda>p. nonneg_finite (score p)) three_scores"
    "list_all (\<lambda>p. nonneg_finite (chests p)) three_scores"
    "list_all (\<lambda>p. nonneg_finite (ratio p)) three_scores"
    by (simp_all add: three_scores_def scored_def)
  have v: "range_counts score_ranges score three_scores = [1, 1, 0, 0, 0, 0, 0, 1]"
    by (simp add: range_counts_def score_ranges_def three_scores_def scored_def
        in_range_number num_le_def)
  from distribution_counts_each_player_once [of three_scores] h v
  show ?thesis by blast
qed

subsection \<open>The derived lists of alliances and servers\<close>

lemma new_Set_step:
  "distinct s \<Longrightarrow>
   distinct (foldl (\<lambda>s x. if x \<in> set s then s else s @ [x]) s xs)
   \<and> set (foldl (\<lambda>s x. if x \<in> set s then s else s @ [x]) s xs) = set s \<union> set xs"
  by (induction xs arbitrary: s) auto

lemma distinct_new_Set: "distinct (new_Set xs)"
  using new_Set_step [of "[]" xs] by (simp add: new_Set_def)

lemma set_new_Set: "set (new_Set xs) = set xs"
  using new_Set_step [of "[]" xs] by (simp add: new_Set_def)

lemma sort_default_props:
  "distinct (sort_default nf xs) = distinct xs"
  "set (sort_default nf xs) = set xs"
  "JUndefined \<notin> set xs \<Longrightarrow> sorted (map (ToString nf) (sort_default nf xs))"
proof -
  show "distinct (sort_default nf xs) = distinct xs"
    by (induction xs) (auto simp: sort_default_def)
  show "set (sort_default nf xs) = set xs"
    by (auto simp: sort_default_def)
  assume "JUndefined \<notin> set xs"
  then have "filter (\<lambda>v. v = JUndefined) xs = []" "filter (\<lambda>v. v \<noteq> JUndefined) xs = xs"
    by (induction xs) auto
  then show "sorted (map (ToString nf) (sort_default nf xs))"
    by (simp add: sort_default_def)
qed

lemma js_or_defined: "b \<noteq> JUndefined \<Longrightarrow> js_or a b \<noteq> JUndefined"
  by (cases a) (auto simp: js_or_def)

lemma process_entry_defaults:
  assumes "process_entry i e = Inr p"
  shows "alliance p \<noteq> JUndefined \<and> server p \<noteq> JUndefined"
proof (cases e)
  case NullEntry
  with assms show ?thesis by (simp add: process_entry_def)
next
  case (Entry r)
  from assms have "map_sum id alliance (process_entry i e) = Inr (alliance p)"
    and "map_sum id server (process_entry i e) = Inr (server p)"
    by simp_all
  with Entry have "alliance p = js_or (raw_alliance r) (JStr [])"
    and "server p = js_or (raw_server r) (JStr ''Unknown'')"
    by (simp_all add: process_entry_def)
  then show ?thesis by (simp add: js_or_defined)
qed

lemma map_entries_defaults:
  "map_entries i es = Inr ps \<Longrightarrow>
   list_all (\<lambda>p. alliance p \<noteq> JUndefined \<and> server p \<noteq> JUndefined) ps"
proof (induction es arbitrary: i ps)
  case Nil
  then show ?case by simp
next
  case (Cons e es)
  from Cons.prems obtain p qs where p: "process_entry i e = Inr p"
    and qs: "map_entries (Suc i) es = Inr qs" and ps: "ps = p # qs"
    by (auto split: sum.splits)
  from Cons.IH [OF qs] process_entry_defaults [OF p] ps show ?case by simp
qed

lemma raw_player_list_defaults:
  "raw_player_list doc = Inr ps \<Longrightarrow>
   list_all (\<lambda>p. alliance p \<noteq> JUndefined \<and> server p \<noteq> JUndefined) ps"
  by (auto simp: raw_player_list_def map_entries_defaults
      split: raw_doc.splits raw_players.splits)

lemma extract_alliances_props:
  assumes "list_all (\<lambda>p. alliance p \<noteq> JUndefined \<and> server p \<noteq> JUndefined) ps"
  shows "sorted (map (ToString nf) (extract_alliances nf ps))"
    and "distinct (extract_alliances nf ps)"
    and "JStr [] \<notin> set (extract_alliances nf ps)"
    and "set (extract_alliances nf ps) = set (map alliance ps) - {JStr []}"
proof -
  let ?xs = "new_Set (filter (\<lambda>a. \<not> strict_eq a (JStr [])) (map alliance ps))"
  have "JUndefined \<notin> set ?xs"
    using assms by (auto simp: set_new_Set list_all_iff)
  then show "sorted (map (ToString nf) (extract_alliances nf ps))"
    unfolding extract_alliances_def by (rule sort_default_props(3))
  show "distinct (extract_alliances nf ps)"
    by (simp add: extract_alliances_def sort_default_props(1) distinct_new_Set)
  show "set (extract_alliances nf ps) = set (map alliance ps) - {JStr []}"
    by (auto simp: extract_alliances_def sort_default_props(2) set_new_Set strict_eq_def)
  then show "JStr [] \<notin> set (extract_alliances nf ps)"
    by simp
qed

lemma extract_servers_props:
  assumes "list_all (\<lambda>p. alliance p \<noteq> JUndefined \<and> server p \<noteq> JUndefined) ps"
  shows "sorted (map (ToString nf) (extract_servers nf ps))"
    and "distinct (extract_servers nf ps)"
    and "JStr ''Unknown'' \<notin> set (extract_servers nf ps)"
    and "set (extract_servers nf ps) = set (map server ps) - {JStr ''Unknown''}"
proof -
  let ?xs = "new_Set (filter (\<lambda>a. \<not> strict_eq a (JStr ''Unknown'')) (map server ps))"
  have "JUndefined \<notin> set ?xs"
    using assms by (auto simp: set_new_Set list_all_iff)
  then show "sorted (map (ToString nf) (extract_servers nf ps))"
    unfolding extract_servers_def by (rule sort_default_props(3))
  show "distinct (extract_servers nf ps)"
    by (simp add: extract_servers_def sort_default_props(1) distinct_new_Set)
  show "set (extract_servers nf ps) = set (map server ps) - {JStr ''Unknown''}"
    by (auto simp: extract_servers_def sort_default_props(2) set_new_Set strict_eq_def)
  then show "JStr ''Unknown'' \<notin> set (extract_servers nf ps)"
    by simp
qed

lemma processData_cache:
  "cache (snd (processData nf clock writable doc st)) = cache st
   \<or> (\<exists>ps. raw_player_list doc = Inr ps
          \<and> fst (processData nf clock writable doc st)
          \<and> cache (snd (processData nf clock writable doc st)) =
               \<lparr>players = ps, alliances = extract_alliances nf ps,
                servers = extract_servers nf ps, lastUpdated = Some (Time clock)\<rparr>)"
  by (cases "raw_player_list doc")
     (simp_all add: processData_def handleError_def saveToCache_def)

lemma processData_ok:
  "cache (snd (processData nf clock writable doc st)) = cache st
   \<or> derived_lists_ok nf (cache (snd (processData nf clock writable doc st)))"
proof -
  from processData_cache [of nf clock writable doc st]
  show ?thesis
  proof
    assume "cache (snd (processData nf clock writable doc st)) = cache st"
    then show ?thesis by simp
  next
    assume "\<exists>ps. raw_player_list doc = Inr ps
          \<and> fst (processData nf clock writable doc st)
          \<and> cache (snd (processData nf clock writable doc st)) =
               \<lparr>players = ps, alliances = extract_alliances nf ps,
                servers = extract_servers nf ps, lastUpdated = Some (Time clock)\<rparr>"
    then obtain ps where ps: "raw_player_list doc = Inr ps"
      and c: "cache (snd (processData nf clock writable doc st)) =
               \<lparr>players = ps, alliances = extract_alliances nf ps,
                servers = extract_servers nf ps, lastUpdated = Some (Time clock)\<rparr>"
      by blast
    from raw_player_list_defaults [OF ps]
    have "derived_lists_ok nf \<lparr>players = ps, alliances = extract_alliances nf ps,
                servers = extract_servers nf ps, lastUpdated = Some (Time clock)\<rparr>"
      by (simp add: derived_lists_ok_def extract_alliances_props extract_servers_props)
    with c show ?thesis by simp
  qed
qed

text \<open>
  Claim C9.  After a data load the list of alliances and the list of servers of the
  cache are each sorted in ascending order (the order of \<^verbatim>\<open>sort()\<close>), free of
  duplicates and free of their sentinel: the empty string is no alliance of the list
  and \<open>Unknown\<close> is no server of it.  This holds after every \<^verbatim>\<open>_processData\<close> that
  returns \<^verbatim>\<open>true\<close>, whatever the document; and a call of \<^verbatim>\<open>loadData\<close> either leaves
  the cache as it was or leaves it with lists of that kind.
\<close>

theorem derived_lists_after_load:
  "(fst (processData nf clock writable doc st) \<longrightarrow>
      derived_lists_ok nf (cache (snd (processData nf clock writable doc st))))
   \<and> (cache (snd (loadData nf ev forceRefresh st)) = cache st
      \<or> derived_lists_ok nf (cache (snd (loadData nf ev forceRefresh st))))"
proof
  show "fst (processData nf clock writable doc st) \<longrightarrow>
      derived_lists_ok nf (cache (snd (processData nf clock writable doc st)))"
  proof
    assume ok: "fst (processData nf clock writable doc st)"
    then obtain ps where ps: "raw_player_list doc = Inr ps"
      by (cases "raw_player_list doc") (simp_all add: processData_def)
    then have c: "cache (snd (processData nf clock writable doc st)) =
               \<lparr>players = ps, alliances = extract_alliances nf ps,
                servers = extract_servers nf ps, lastUpdated = Some (Time clock)\<rparr>"
      by (simp add: processData_def saveToCache_def)
    from raw_player_list_defaults [OF ps]
    have "derived_lists_ok nf \<lparr>players = ps, alliances = extract_alliances nf ps,
                servers = extract_servers nf ps, lastUpdated = Some (Time clock)\<rparr>"
      by (simp add: derived_lists_ok_def extract_alliances_props extract_servers_props)
    with c show "derived_lists_ok nf (cache (snd (processData nf clock writable doc st)))"
      by simp
  qed
next
  let ?st1 = "st\<lparr>isLoading := True\<rparr>"
  have same: "cache ?st1 = cache st" by simp
  show "cache (snd (loadData nf ev forceRefresh st)) = cache st
      \<or> derived_lists_ok nf (cache (snd (loadData nf ev forceRefresh st)))"
  proof (cases "\<not> forceRefresh \<and> isDataLoaded st \<and> isCacheValid (now ev) st")
    case True
    then show ?thesis by (simp add: loadData_def)
  next
    case False
    show ?thesis
    proof (cases "fetch ev (ToString nf (js_or (dataSource st) (JStr (dataSourceUrl st))))")
      case FetchRejected
      with False show ?thesis by (auto simp: loadData_def Let_def handleError_def)
    next
      case (Response ok status b)
      show ?thesis
      proof (cases b)
        case BadJson
        with False Response show ?thesis by (auto simp: loadData_def Let_def handleError_def)
      next
        case (Json d)
        show ?thesis
        proof (cases ok)
          case False
          with \<open>\<not> (\<not> forceRefresh \<and> isDataLoaded st \<and> isCacheValid (now ev) st)\<close> Response
          show ?thesis by (auto simp: loadData_def Let_def handleError_def)
        next
          case True
          with \<open>\<not> (\<not> forceRefresh \<and> isDataLoaded st \<and> isCacheValid (now ev) st)\<close> Response Json
          have "cache (snd (loadData nf ev forceRefresh st)) =
                cache (snd (processData nf (now_fetched ev) (storageWritable ev) d ?st1))"
            by (auto simp: loadData_def Let_def)
          with processData_ok [of nf "now_fetched ev" "storageWritable ev" d ?st1] same
          show ?thesis by simp
        qed
      qed
    qed
  qed
qed

theorem derived_lists_after_load_witness:
  "fst (processData integer_format 0 True four_entries new_DataService)
   \<and> alliances (cache (snd (processData integer_format 0 True four_entries new_DataService))) =
       [JStr ''Blue'', JStr ''Red'']
   \<and> servers (cache (snd (processData integer_format 0 True four_entries new_DataService))) =
       [JStr ''S1'', JStr ''S2'']
   \<and> derived_lists_ok integer_format
       (cache (snd (processData integer_format 0 True four_entries new_DataService)))"
proof -
  have a: "fst (processData integer_format 0 True four_entries new_DataService)"
    by code_simp
  have b: "alliances (cache (snd (processData integer_format 0 True four_entries new_DataService))) =
       [JStr ''Blue'', JStr ''Red'']"
    by code_simp
  have c: "servers (cache (snd (processData integer_format 0 True four_entries new_DataService))) =
       [JStr ''S1'', JStr ''S2'']"
    by code_simp
  from derived_lists_after_load [of integer_format 0 True four_entries new_DataService] a b c
  show ?thesis by blast
qed

subsection \<open>Top players\<close>

lemma mset_insert_by: "mset (insert_by cmp x ys) = add_mset x (mset ys)"
  by (induction ys) simp_all

lemma mset_sort_by: "mset (sort_by cmp xs) = mset xs"
  by (induction xs) (simp_all add: mset_insert_by)

lemma set_sort_by: "set (sort_by cmp xs) = set xs"
  by (metis mset_sort_by set_mset_mset)

lemma filter_insert_by:
  assumes "\<And>y. num_gt (cmp x y) (Fin 0) \<Longrightarrow> P x \<Longrightarrow> \<not> P y"
  shows "filter P (insert_by cmp x ys) = (if P x then x # filter P ys else filter P ys)"
  using assms by (induction ys) auto

lemma filter_sort_by:
  assumes "\<And>x y. num_gt (cmp x y) (Fin 0) \<Longrightarrow> P x \<Longrightarrow> \<not> P y"
  shows "filter P (sort_by cmp xs) = filter P xs"
proof (induction xs)
  case Nil
  then show ?case by simp
next
  case (Cons x xs)
  have "filter P (insert_by cmp x (sort_by cmp xs)) =
        (if P x then x # filter P (sort_by cmp xs) else filter P (sort_by cmp xs))"
    by (rule filter_insert_by) (rule assms)
  with Cons show ?case by simp
qed

lemma difference_positive:
  "num_gt (num_sub b a) (Fin 0) \<Longrightarrow> a \<noteq> b"
  by (cases a; cases b) (auto simp: num_gt_def num_sub_def)

lemma difference_positive_iff:
  "\<not> isNaN a \<Longrightarrow> \<not> isNaN b \<Longrightarrow> num_gt (num_sub b a) (Fin 0) = num_lt a b"
  by (cases a; cases b) (auto simp: num_gt_def num_sub_def)

lemma num_ge_total:
  "\<not> isNaN a \<Longrightarrow> \<not> isNaN b \<Longrightarrow> \<not> num_lt a b \<Longrightarrow> num_ge a b"
  by (cases a; cases b) (auto simp: num_ge_def num_le_def)

lemma num_lt_ge:
  "num_lt a b \<Longrightarrow> num_ge b a"
  by (cases a; cases b) (auto simp: num_ge_def num_le_def)

lemma num_ge_trans:
  "num_ge a b \<Longrightarrow> num_ge b c \<Longrightarrow> num_ge a c"
  by (cases a; cases b; cases c) (auto simp: num_ge_def num_le_def)

lemma descending_insert_by:
  assumes "descending field ys" and "numeric field (x # ys)"
  shows "descending field (insert_by (\<lambda>a b. js_sub (field b) (field a)) x ys)"
  using assms
proof (induction ys)
  case Nil
  then show ?case by (simp add: descending_def)
next
  case (Cons y ys)
  let ?cmp = "\<lambda>a b. js_sub (field b) (field a)"
  from Cons.prems have nx: "\<not> isNaN (ToNumber (field x))" and ny: "\<not> isNaN (ToNumber (field y))"
    by (simp_all add: numeric_def)
  show ?case
  proof (cases "num_gt (?cmp x y) (Fin 0)")
    case True
    then have lt: "num_lt (ToNumber (field x)) (ToNumber (field y))"
      using nx ny by (simp add: js_sub_def difference_positive_iff)
    from Cons.prems have "descending field ys" "numeric field (x # ys)"
      by (simp_all add: descending_def numeric_def)
    then have IH: "descending field (insert_by ?cmp x ys)" by (rule Cons.IH)
    have "set (insert_by ?cmp x ys) = insert x (set ys)"
      by (metis mset_insert_by set_mset_add_mset_insert set_mset_mset)
    with Cons.prems(1) lt IH True show ?thesis
      by (auto simp: descending_def num_lt_ge)
  next
    case False
    then have ge: "num_ge (ToNumber (field x)) (ToNumber (field y))"
      using nx ny by (simp add: js_sub_def difference_positive_iff num_ge_total)
    with Cons.prems(1) False show ?thesis
      by (auto simp: descending_def intro: num_ge_trans)
  qed
qed

lemma descending_sort_by:
  "numeric field xs \<Longrightarrow> descending field (sort_by (\<lambda>a b. js_sub (field b) (field a)) xs)"
proof (induction xs)
  case Nil
  then show ?case by (simp add: descending_def)
next
  case (Cons x xs)
  then have "descending field (sort_by (\<lambda>a b. js_sub (field b) (field a)) xs)"
    by (simp add: numeric_def)
  moreover have "numeric field (x # sort_by (\<lambda>a b. js_sub (field b) (field a)) xs)"
    using Cons.prems by (simp add: numeric_def list_all_iff set_sort_by)
  ultimately show ?case by (simp add: descending_insert_by)
qed

lemma sort_by_stable_descending:
  assumes "numeric field xs"
  shows "stable_descending field xs (sort_by (\<lambda>a b. js_sub (field b) (field a)) xs)"
proof -
  have "filter (\<lambda>q. ToNumber (field q) = k) (sort_by (\<lambda>a b. js_sub (field b) (field a)) xs) =
        filter (\<lambda>q. ToNumber (field q) = k) xs" for k
    by (rule filter_sort_by) (auto simp: js_sub_def dest: difference_positive)
  then show ?thesis
    using assms by (simp add: stable_descending_def mset_sort_by descending_sort_by list_all_iff)
qed

lemma descending_key_inj: "descending_key a = descending_key b \<longleftrightarrow> a = b"
  by (cases a; cases b) simp_all

lemma descending_key_le: "num_ge a b \<Longrightarrow> descending_key a \<le> descending_key b"
  by (cases a; cases b) (simp_all add: num_ge_def num_le_def)

lemma stable_descending_is_sort_key:
  assumes "stable_descending field xs ys"
  shows "sort_key (\<lambda>p. descending_key (ToNumber (field p))) xs = ys"
proof (rule properties_for_sort_key)
  from assms show "mset ys = mset xs"
    by (simp add: stable_descending_def)
  then have sets: "set ys = set xs"
    by (metis set_mset_mset)
  show "filter (\<lambda>x. descending_key (ToNumber (field k)) = descending_key (ToNumber (field x))) ys =
        filter (\<lambda>x. descending_key (ToNumber (field k)) = descending_key (ToNumber (field x))) xs"
    if "k \<in> set ys" for k
  proof -
    from that sets assms
    have "filter (\<lambda>q. ToNumber (field q) = ToNumber (field k)) ys =
          filter (\<lambda>q. ToNumber (field q) = ToNumber (field k)) xs"
      by (simp add: stable_descending_def list_all_iff)
    moreover have "(\<lambda>x. descending_key (ToNumber (field k)) = descending_key (ToNumber (field x))) =
          (\<lambda>q. ToNumber (field q) = ToNumber (field k))"
      by (auto simp: descending_key_inj fun_eq_iff)
    ultimately show ?thesis by simp
  qed
  from assms have "sorted_wrt (\<lambda>a b. num_ge (ToNumber (field a)) (ToNumber (field b))) ys"
    by (simp add: stable_descending_def descending_def)
  then have "sorted_wrt (\<lambda>a b. descending_key (ToNumber (field a)) \<le> descending_key (ToNumber (field b))) ys"
    by (rule sorted_wrt_mono_rel [rotated]) (simp add: descending_key_le)
  then show "sorted (map (\<lambda>p. descending_key (ToNumber (field p))) ys)"
    by (simp add: sorted_map)
qed

lemma stable_descending_unique:
  "stable_descending field xs ys \<Longrightarrow> stable_descending field xs zs \<Longrightarrow> zs = ys"
  using stable_descending_is_sort_key by metis

lemma sort_by_is_top10:
  assumes "numeric field xs"
  shows "is_top10 field xs (take 10 (sort_by (\<lambda>a b. js_sub (field b) (field a)) xs))"
  unfolding is_top10_def
  using sort_by_stable_descending [OF assms] stable_descending_unique by blast

text \<open>
  Claim C7 says that for every player list the top ten lists are the first ten players
  in descending order of the metric.  After processing the document
  \<^verbatim>\<open>{"players": [{"score": 5, "chests": 5}, {"chests": 5}, {"score": 10, "chests": 5}]}\<close>
  the ratios of the cached players are 1, \<open>NaN\<close>, 2, and \<^verbatim>\<open>topPlayersByRatio\<close> of the
  statistics lists them in this order, the ratio 1 before the ratio 2.
\<close>

theorem top_by_ratio_not_descending:
  "map ratio (topPlayersByRatio (getStatistics integer_format score_missing_loaded)) =
     [JNum (Fin 1), JNum NaN, JNum (Fin 2)]
   \<and> \<not> descending ratio (topPlayersByRatio (getStatistics integer_format score_missing_loaded))"
  by code_simp

text \<open>
  Claim C7, amended.  For every player list in which the chosen metric of every player
  converts to a number other than \<open>NaN\<close>, the top ten lists of the statistics (by
  score, by chests, by ratio) and of the top players chart are the first ten elements
  of the list sorted in descending order of the metric, with players of equal metric
  in their original relative order; that sorted list is unique.  The chart gives the
  names of these players as categories and their metric values as data.  For the
  chart, a metric argument outside score, chests, ratio (an absent one included) is
  treated as score.
\<close>

theorem top_lists_stable_descending:
  "(numeric score (players (cache st)) \<longrightarrow>
      is_top10 score (players (cache st)) (topPlayersByScore (getStatistics nf st)))
   \<and> (numeric chests (players (cache st)) \<longrightarrow>
      is_top10 chests (players (cache st)) (topPlayersByChests (getStatistics nf st)))
   \<and> (numeric ratio (players (cache st)) \<longrightarrow>
      is_top10 ratio (players (cache st)) (topPlayersByRatio (getStatistics nf st)))
   \<and> (numeric (metric_field (valid_metric m)) ps \<longrightarrow>
      (\<exists>tops. is_top10 (metric_field (valid_metric m)) ps tops
         \<and> createTopPlayersData ps m =
             \<lparr>series = [\<lparr>series_name = metric_title (valid_metric m),
                         data = map (metric_field (valid_metric m)) tops\<rparr>],
              categories = map name tops\<rparr>))
   \<and> (m \<notin> set [JStr ''score'', JStr ''chests'', JStr ''ratio''] \<longrightarrow>
      valid_metric (js_or m (JStr ''score'')) = JStr ''score'')
   \<and> (m \<in> set [JStr ''score'', JStr ''chests'', JStr ''ratio''] \<longrightarrow>
      valid_metric (js_or m (JStr ''score'')) = m)
   \<and> metric_field (JStr ''score'') = score \<and> metric_field (JStr ''chests'') = chests
   \<and> metric_field (JStr ''ratio'') = ratio
   \<and> fst (getChartData nf (JStr ''top_players'') (Options filters m) st) =
       createTopPlayersData (fst (getFilteredPlayers nf filters st)) (js_or m (JStr ''score''))"
proof -
  have stats: "topPlayersByScore (getStatistics nf st) =
      take 10 (sort_by (\<lambda>a b. js_sub (score b) (score a)) (players (cache st)))"
    "topPlayersByChests (getStatistics nf st) =
      take 10 (sort_by (\<lambda>a b. js_sub (chests b) (chests a)) (players (cache st)))"
    "topPlayersByRatio (getStatistics nf st) =
      take 10 (sort_by (\<lambda>a b. js_sub (ratio b) (ratio a)) (players (cache st)))"
    by (simp_all add: getStatistics_def Let_def)
  have chart: "\<exists>tops. is_top10 (metric_field (valid_metric m)) ps tops
         \<and> createTopPlayersData ps m =
             \<lparr>series = [\<lparr>series_name = metric_title (valid_metric m),
                         data = map (metric_field (valid_metric m)) tops\<rparr>],
              categories = map name tops\<rparr>"
    if "numeric (metric_field (valid_metric m)) ps"
    using sort_by_is_top10 [OF that] by (auto simp: createTopPlayersData_def Let_def)
  have default: "valid_metric (js_or m (JStr ''score'')) = JStr ''score''"
    if "m \<notin> set [JStr ''score'', JStr ''chests'', JStr ''ratio'']"
    using that by (simp add: valid_metric_def js_or_def)
  have known: "valid_metric (js_or m (JStr ''score'')) = m"
    if "m \<in> set [JStr ''score'', JStr ''chests'', JStr ''ratio'']"
    using that by (auto simp: valid_metric_def js_or_def)
  have fields: "metric_field (JStr ''score'') = score" "metric_field (JStr ''chests'') = chests"
    "metric_field (JStr ''ratio'') = ratio"
    by (simp_all add: metric_field_def fun_eq_iff)
  have call: "fst (getChartData nf (JStr ''top_players'') (Options filters m) st) =
       createTopPlayersData (fst (getFilteredPlayers nf filters st)) (js_or m (JStr ''score''))"
    by (simp add: getChartData_def split_beta)
  show ?thesis
    unfolding stats
    using sort_by_is_top10 [of score "players (cache st)"]
      sort_by_is_top10 [of chests "players (cache st)"]
      sort_by_is_top10 [of ratio "players (cache st)"] chart default known fields call
    by blast
qed

theorem top_lists_stable_descending_witness:
  "numeric score (players (cache two_players))
   \<and> numeric ratio (players (cache two_players))
   \<and> topPlayersByScore (getStatistics integer_format two_players) =
       [players (cache two_players) ! 1, players (cache two_players) ! 0,
        players (cache two_players) ! 2]
   \<and> topPlayersByRatio (getStatistics integer_format two_players) =
       [players (cache two_players) ! 0, players (cache two_players) ! 2,
        players (cache two_players) ! 1]
   \<and> is_top10 score (players (cache two_players))
       (topPlayersByScore (getStatistics integer_format two_players))
   \<and> is_top10 ratio (players (cache two_players))
       (topPlayersByRatio (getStatistics integer_format two_players))"
proof -
  have n: "numeric score (players (cache two_players))"
    "numeric chests (players (cache two_players))"
    "numeric ratio (players (cache two_players))"
    by (simp_all add: numeric_def two_players_def)
  have v: "topPlayersByScore (getStatistics integer_format two_players) =
       [players (cache two_players) ! 1, players (cache two_players) ! 0,
        players (cache two_players) ! 2]"
    "topPlayersByRatio (getStatistics integer_format two_players) =
       [players (cache two_players) ! 0, players (cache two_players) ! 2,
        players (cache two_players) ! 1]"
    by code_simp+
  from top_lists_stable_descending [of two_players integer_format] n v
  show ?thesis by blast
qed

end
